theory Spec2Isabelle
  imports Main
begin

section \<open>JavaScript strings and runtime errors\<close>

text \<open>
  A JavaScript string is a sequence of UTF-16 code units. A code unit is modelled as a
  natural number (below 65536 in every string the runtime can build); an ASCII literal
  of the source is written \<open>js ''...''\<close>.
\<close>

type_synonym jsstring = "nat list"

definition js :: "string \<Rightarrow> jsstring" where
  "js s = map of_char s"

datatype js_error = TypeError | RangeError | URIError | Error jsstring

section \<open>Util.js: code points\<close>

text \<open>\<open>Util.validateCodepoint\<close>: the XML 1.0 character production.\<close>

definition validateCodepoint :: "int \<Rightarrow> bool" where
  "validateCodepoint cp \<longleftrightarrow>
     cp = 0x09 \<or> cp = 0x0a \<or> cp = 0x0d \<or>
     (cp \<ge> 0x20 \<and> cp \<le> 0xd7ff) \<or>
     (cp \<ge> 0xe000 \<and> cp \<le> 0xfffd) \<or>
     (cp \<ge> 0x10000 \<and> cp \<le> 0x10ffff)"

text \<open>
  \<open>Util.codepointToUtf8\<close> is \<open>String.fromCodePoint\<close>: a RangeError outside
  \<open>[0, 0x10FFFF]\<close>, one code unit below 0x10000, a surrogate pair above.
\<close>

definition codepointToUtf8 :: "int \<Rightarrow> js_error + jsstring" where
  "codepointToUtf8 cp =
     (if cp < 0 \<or> cp > 0x10FFFF then Inl RangeError
      else if cp < 0x10000 then Inr [nat cp]
      else Inr [0xD800 + (nat cp - 0x10000) div 0x400,
                0xDC00 + (nat cp - 0x10000) mod 0x400])"

text \<open>
  \<open>Util.utf8ToCodepoint\<close> is \<open>str.codePointAt(0)\<close>; \<open>None\<close> is \<open>undefined\<close>
  (the empty string).
\<close>

fun utf8ToCodepoint :: "jsstring \<Rightarrow> int option" where
  "utf8ToCodepoint [] = None"
| "utf8ToCodepoint [c] = Some (int c)"
| "utf8ToCodepoint (c # d # _) =
     (if 0xD800 \<le> c \<and> c \<le> 0xDBFF \<and> 0xDC00 \<le> d \<and> d \<le> 0xDFFF
      then Some (int ((c - 0xD800) * 0x400 + (d - 0xDC00) + 0x10000))
      else Some (int c))"

section \<open>TokenSanitizer.js: character references\<close>

definition UTF8_REPLACEMENT :: jsstring where
  "UTF8_REPLACEMENT = [0xef, 0xbf, 0xbd]"

definition decodeChar :: "int \<Rightarrow> js_error + jsstring" where
  "decodeChar codepoint =
     (if validateCodepoint codepoint then codepointToUtf8 codepoint
      else Inr UTF8_REPLACEMENT)"

section \<open>String primitives of the runtime\<close>

definition startsWith :: "jsstring \<Rightarrow> jsstring \<Rightarrow> bool" where
  "startsWith p s \<longleftrightarrow> take (length p) s = p"

text \<open>
  \<open>s.replace(/lit/g, rep)\<close> for a literal, non-empty pattern: the occurrences are
  replaced from left to right, and the scan resumes after each occurrence.
\<close>

fun replaceAll :: "jsstring \<Rightarrow> jsstring \<Rightarrow> jsstring \<Rightarrow> jsstring" where
  "replaceAll pat rep [] = []"
| "replaceAll [] rep (c # cs) = c # cs"
| "replaceAll (p # ps) rep (c # cs) =
     (if startsWith (p # ps) (c # cs)
      then rep @ replaceAll (p # ps) rep (drop (length ps) cs)
      else c # replaceAll (p # ps) rep cs)"

text \<open>\<open>s.indexOf(lit) > -1\<close>.\<close>

fun contains :: "jsstring \<Rightarrow> jsstring \<Rightarrow> bool" where
  "contains pat [] = (pat = [])"
| "contains pat (c # cs) = (startsWith pat (c # cs) \<or> contains pat cs)"

text \<open>Character classes of ECMAScript regular expressions (no \<open>u\<close> flag).\<close>

definition isDigit :: "nat \<Rightarrow> bool" where
  "isDigit c \<longleftrightarrow> 0x30 \<le> c \<and> c \<le> 0x39"

definition isUpper :: "nat \<Rightarrow> bool" where
  "isUpper c \<longleftrightarrow> 0x41 \<le> c \<and> c \<le> 0x5A"

definition isLower :: "nat \<Rightarrow> bool" where
  "isLower c \<longleftrightarrow> 0x61 \<le> c \<and> c \<le> 0x7A"

definition isAlpha :: "nat \<Rightarrow> bool" where
  "isAlpha c \<longleftrightarrow> isUpper c \<or> isLower c"

definition isHexDigit :: "nat \<Rightarrow> bool" where
  "isHexDigit c \<longleftrightarrow> isDigit c \<or> (0x41 \<le> c \<and> c \<le> 0x46) \<or> (0x61 \<le> c \<and> c \<le> 0x66)"

text \<open>\<open>\w\<close> is \<open>[A-Za-z0-9_]\<close>.\<close>

definition isWordChar :: "nat \<Rightarrow> bool" where
  "isWordChar c \<longleftrightarrow> isAlpha c \<or> isDigit c \<or> c = 0x5F"

text \<open>\<open>.\<close> excludes the line terminators LF, CR, U+2028 and U+2029.\<close>

definition isLineTerminator :: "nat \<Rightarrow> bool" where
  "isLineTerminator c \<longleftrightarrow> c = 0x0A \<or> c = 0x0D \<or> c = 0x2028 \<or> c = 0x2029"

text \<open>
  \<open>\s\<close> (and what \<open>trim\<close> strips): WhiteSpace and LineTerminator of ECMAScript, with the
  space separators of Unicode 6.3 and later.
\<close>

definition isSpace :: "nat \<Rightarrow> bool" where
  "isSpace c \<longleftrightarrow>
     c = 0x09 \<or> c = 0x0A \<or> c = 0x0B \<or> c = 0x0C \<or> c = 0x0D \<or> c = 0x20 \<or>
     c = 0xA0 \<or> c = 0x1680 \<or> (0x2000 \<le> c \<and> c \<le> 0x200A) \<or>
     c = 0x2028 \<or> c = 0x2029 \<or> c = 0x202F \<or> c = 0x205F \<or> c = 0x3000 \<or> c = 0xFEFF"

text \<open>
  Case-insensitive comparison of a regular expression with the \<open>i\<close> flag: a code unit
  is canonicalized by \<open>toUpperCase\<close>, except that a code unit of 128 or more is never
  mapped below 128; against ASCII patterns only ASCII letters fold.
\<close>

definition asciiLower :: "nat \<Rightarrow> nat" where
  "asciiLower c = (if isUpper c then c + 0x20 else c)"

definition startsWithCI :: "jsstring \<Rightarrow> jsstring \<Rightarrow> bool" where
  "startsWithCI p s \<longleftrightarrow> map asciiLower (take (length p) s) = map asciiLower p"

definition trim :: "jsstring \<Rightarrow> jsstring" where
  "trim s = rev (dropWhile isSpace (rev (dropWhile isSpace s)))"

section \<open>Util.js: the PHP-compatible percent-encoder\<close>

definition hexDigitUpper :: "nat \<Rightarrow> nat" where
  "hexDigitUpper d = (if d < 10 then 0x30 + d else 0x41 + (d - 10))"

text \<open>One octet as \<open>%XX\<close>, upper-case hexadecimal.\<close>

definition pctOctet :: "nat \<Rightarrow> jsstring" where
  "pctOctet b = [0x25, hexDigitUpper (b div 16), hexDigitUpper (b mod 16)]"

text \<open>The UTF-8 octets of a code point.\<close>

definition utf8Octets :: "nat \<Rightarrow> nat list" where
  "utf8Octets v =
     (if v < 0x80 then [v]
      else if v < 0x800 then [0xC0 + v div 0x40, 0x80 + v mod 0x40]
      else if v < 0x10000 then
        [0xE0 + v div 0x1000, 0x80 + (v div 0x40) mod 0x40, 0x80 + v mod 0x40]
      else
        [0xF0 + v div 0x40000, 0x80 + (v div 0x1000) mod 0x40,
         0x80 + (v div 0x40) mod 0x40, 0x80 + v mod 0x40])"

text \<open>The characters \<open>encodeURIComponent\<close> leaves alone: \<open>A-Z a-z 0-9 - _ . ! ~ * ' ( )\<close>.\<close>

definition uriUnescaped :: "nat \<Rightarrow> bool" where
  "uriUnescaped c \<longleftrightarrow>
     isAlpha c \<or> isDigit c \<or> c = 0x2D \<or> c = 0x5F \<or> c = 0x2E \<or> c = 0x21 \<or>
     c = 0x7E \<or> c = 0x2A \<or> c = 0x27 \<or> c = 0x28 \<or> c = 0x29"

text \<open>
  The built-in \<open>encodeURIComponent\<close> (ECMAScript, Encode): an unescaped character is
  copied; a lone surrogate throws URIError; any other code point is written as the
  \<open>%XX\<close> of its UTF-8 octets.
\<close>

fun encodeURIComponent :: "jsstring \<Rightarrow> js_error + jsstring" where
  "encodeURIComponent [] = Inr []"
| "encodeURIComponent (c # cs) =
     (if uriUnescaped c then
        (case encodeURIComponent cs of Inl e \<Rightarrow> Inl e | Inr r \<Rightarrow> Inr (c # r))
      else if 0xDC00 \<le> c \<and> c \<le> 0xDFFF then Inl URIError
      else if \<not> (0xD800 \<le> c \<and> c \<le> 0xDBFF) then
        (case encodeURIComponent cs of Inl e \<Rightarrow> Inl e
         | Inr r \<Rightarrow> Inr (concat (map pctOctet (utf8Octets c)) @ r))
      else
        (case cs of
           [] \<Rightarrow> Inl URIError
         | d # ds \<Rightarrow>
            if \<not> (0xDC00 \<le> d \<and> d \<le> 0xDFFF) then Inl URIError
            else
              (case encodeURIComponent ds of Inl e \<Rightarrow> Inl e
               | Inr r \<Rightarrow>
                  Inr (concat (map pctOctet
                         (utf8Octets ((c - 0xD800) * 0x400 + (d - 0xDC00) + 0x10000))) @ r))))"

text \<open>
  \<open>Util.phpURLEncode\<close>: \<open>encodeURIComponent\<close>, then \<open>! ' ( ) * ~\<close> escaped as well, then
  every \<open>%20\<close> turned into \<open>+\<close>.
\<close>

definition phpURLEncode :: "jsstring \<Rightarrow> js_error + jsstring" where
  "phpURLEncode txt =
     (case encodeURIComponent txt of
        Inl e \<Rightarrow> Inl e
      | Inr s \<Rightarrow>
          Inr (replaceAll (js ''%20'') (js ''+'')
              (replaceAll (js ''~'') (js ''%7E'')
              (replaceAll (js ''*'') (js ''%2A'')
              (replaceAll (js '')'') (js ''%29'')
              (replaceAll (js ''('') (js ''%28'')
              (replaceAll [0x27] (js ''%27'')
              (replaceAll (js ''!'') (js ''%21'') s))))))))"

section \<open>TokenSanitizer.js: escaping of ids\<close>

text \<open>
  \<open>escapeIdInternal\<close>: the \<open>switch\<close> on the mode string; any other mode throws
  \<open>Error('Invalid mode: ' + mode)\<close>.
\<close>

definition escapeIdInternal :: "jsstring \<Rightarrow> jsstring \<Rightarrow> js_error + jsstring" where
  "escapeIdInternal ident mode =
     (if mode = js ''html5'' then Inr (replaceAll (js '' '') (js ''_'') ident)
      else if mode = js ''legacy'' then
        (case phpURLEncode (replaceAll (js '' '') (js ''_'') ident) of
           Inl e \<Rightarrow> Inl e
         | Inr s \<Rightarrow> Inr (replaceAll (js ''%'') (js ''.'') (replaceAll (js ''%3A'') (js '':'') s)))
      else Inl (Error (js ''Invalid mode: '' @ mode)))"

text \<open>
  \<open>escapeIdForAttribute(id, options)\<close>: the mode is \<open>legacy\<close> when
  \<open>options.fallback\<close> is set, \<open>html5\<close> otherwise.
\<close>

definition escapeIdForAttribute :: "jsstring \<Rightarrow> bool \<Rightarrow> js_error + jsstring" where
  "escapeIdForAttribute ident fallback =
     escapeIdInternal ident (if fallback then js ''legacy'' else js ''html5'')"

section \<open>What the source takes from outside\<close>

text \<open>
  The built-ins and the module that are not part of the source files are parameters of
  the model: the case mappings of strings with non-ASCII code units (the Unicode tables
  of the runtime), the text a built-in function of \<open>Object.prototype\<close> converts to, and
  \<open>WikitextConstants.Sanitizer.TagWhiteList\<close>.
\<close>

record platform =
  lowerNonAscii :: "jsstring \<Rightarrow> jsstring"
  upperNonAscii :: "jsstring \<Rightarrow> jsstring"
  inheritedToString :: "jsstring \<Rightarrow> jsstring"
  TagWhiteList :: "jsstring list"

definition isAscii :: "jsstring \<Rightarrow> bool" where
  "isAscii s \<longleftrightarrow> list_all (\<lambda>c. c < 0x80) s"

definition asciiUpper :: "nat \<Rightarrow> nat" where
  "asciiUpper c = (if isLower c then c - 0x20 else c)"

text \<open>\<open>String.prototype.toLowerCase\<close> and \<open>toUpperCase\<close>: fixed by ECMAScript on ASCII strings.\<close>

definition toLowerCase :: "platform \<Rightarrow> jsstring \<Rightarrow> jsstring" where
  "toLowerCase P s = (if isAscii s then map asciiLower s else lowerNonAscii P s)"

definition toUpperCase :: "platform \<Rightarrow> jsstring \<Rightarrow> jsstring" where
  "toUpperCase P s = (if isAscii s then map asciiUpper s else upperNonAscii P s)"

text \<open>
  The property names every plain object inherits from \<open>Object.prototype\<close>. A lookup
  \<open>obj[name]\<close> on an object literal finds them when \<open>obj\<close> has no own property of that
  name, and each of them is truthy.
\<close>

definition objectPrototypeNames :: "jsstring list" where
  "objectPrototypeNames =
     [js ''constructor'', js ''hasOwnProperty'', js ''isPrototypeOf'',
      js ''propertyIsEnumerable'', js ''toLocaleString'', js ''toString'', js ''valueOf'',
      js ''__defineGetter__'', js ''__defineSetter__'', js ''__lookupGetter__'',
      js ''__lookupSetter__'', js ''__proto__'']"

section \<open>TokenSanitizer.js: SanitizerConstants\<close>

text \<open>\<open>htmlEntityAliases\<close>: the Hebrew and the Arabic spelling of \<open>rlm\<close>.\<close>

definition htmlEntityAliases :: "(jsstring \<times> jsstring) list" where
  "htmlEntityAliases =
     [([0x5E8, 0x5DC, 0x5DE], js ''rlm''), ([0x631, 0x644, 0x645], js ''rlm'')]"

definition htmlEntities :: "(jsstring \<times> int) list" where
  "htmlEntities = [
    (js ''Aacute'', 193), (js ''aacute'', 225), (js ''Acirc'', 194), (js ''acirc'', 226),
    (js ''acute'', 180), (js ''AElig'', 198), (js ''aelig'', 230), (js ''Agrave'', 192),
    (js ''agrave'', 224), (js ''alefsym'', 8501), (js ''Alpha'', 913), (js ''alpha'', 945),
    (js ''amp'', 38), (js ''and'', 8743), (js ''ang'', 8736), (js ''apos'', 39),
    (js ''Aring'', 197), (js ''aring'', 229), (js ''asymp'', 8776), (js ''Atilde'', 195),
    (js ''atilde'', 227), (js ''Auml'', 196), (js ''auml'', 228), (js ''bdquo'', 8222),
    (js ''Beta'', 914), (js ''beta'', 946), (js ''brvbar'', 166), (js ''bull'', 8226),
    (js ''cap'', 8745), (js ''Ccedil'', 199), (js ''ccedil'', 231), (js ''cedil'', 184),
    (js ''cent'', 162), (js ''Chi'', 935), (js ''chi'', 967), (js ''circ'', 710),
    (js ''clubs'', 9827), (js ''cong'', 8773), (js ''copy'', 169), (js ''crarr'', 8629),
    (js ''cup'', 8746), (js ''curren'', 164), (js ''dagger'', 8224), (js ''Dagger'', 8225),
    (js ''darr'', 8595), (js ''dArr'', 8659), (js ''deg'', 176), (js ''Delta'', 916),
    (js ''delta'', 948), (js ''diams'', 9830), (js ''divide'', 247), (js ''Eacute'', 201),
    (js ''eacute'', 233), (js ''Ecirc'', 202), (js ''ecirc'', 234), (js ''Egrave'', 200),
    (js ''egrave'', 232), (js ''empty'', 8709), (js ''emsp'', 8195), (js ''ensp'', 8194),
    (js ''Epsilon'', 917), (js ''epsilon'', 949), (js ''equiv'', 8801), (js ''Eta'', 919),
    (js ''eta'', 951), (js ''ETH'', 208), (js ''eth'', 240), (js ''Euml'', 203),
    (js ''euml'', 235), (js ''euro'', 8364), (js ''exist'', 8707), (js ''fnof'', 402),
    (js ''forall'', 8704), (js ''frac12'', 189), (js ''frac14'', 188), (js ''frac34'', 190),
    (js ''frasl'', 8260), (js ''Gamma'', 915), (js ''gamma'', 947), (js ''ge'', 8805),
    (js ''gt'', 62), (js ''harr'', 8596), (js ''hArr'', 8660), (js ''hearts'', 9829),
    (js ''hellip'', 8230), (js ''Iacute'', 205), (js ''iacute'', 237), (js ''Icirc'', 206),
    (js ''icirc'', 238), (js ''iexcl'', 161), (js ''Igrave'', 204), (js ''igrave'', 236),
    (js ''image'', 8465), (js ''infin'', 8734), (js ''int'', 8747), (js ''Iota'', 921),
    (js ''iota'', 953), (js ''iquest'', 191), (js ''isin'', 8712), (js ''Iuml'', 207),
    (js ''iuml'', 239), (js ''Kappa'', 922), (js ''kappa'', 954), (js ''Lambda'', 923),
    (js ''lambda'', 955), (js ''lang'', 9001), (js ''laquo'', 171), (js ''larr'', 8592),
    (js ''lArr'', 8656), (js ''lceil'', 8968), (js ''ldquo'', 8220), (js ''le'', 8804),
    (js ''lfloor'', 8970), (js ''lowast'', 8727), (js ''loz'', 9674), (js ''lrm'', 8206),
    (js ''lsaquo'', 8249), (js ''lsquo'', 8216), (js ''lt'', 60), (js ''macr'', 175),
    (js ''mdash'', 8212), (js ''micro'', 181), (js ''middot'', 183), (js ''minus'', 8722),
    (js ''Mu'', 924), (js ''mu'', 956), (js ''nabla'', 8711), (js ''nbsp'', 160),
    (js ''ndash'', 8211), (js ''ne'', 8800), (js ''ni'', 8715), (js ''not'', 172),
    (js ''notin'', 8713), (js ''nsub'', 8836), (js ''Ntilde'', 209), (js ''ntilde'', 241),
    (js ''Nu'', 925), (js ''nu'', 957), (js ''Oacute'', 211), (js ''oacute'', 243),
    (js ''Ocirc'', 212), (js ''ocirc'', 244), (js ''OElig'', 338), (js ''oelig'', 339),
    (js ''Ograve'', 210), (js ''ograve'', 242), (js ''oline'', 8254), (js ''Omega'', 937),
    (js ''omega'', 969), (js ''Omicron'', 927), (js ''omicron'', 959), (js ''oplus'', 8853),
    (js ''or'', 8744), (js ''ordf'', 170), (js ''ordm'', 186), (js ''Oslash'', 216),
    (js ''oslash'', 248), (js ''Otilde'', 213), (js ''otilde'', 245), (js ''otimes'', 8855),
    (js ''Ouml'', 214), (js ''ouml'', 246), (js ''para'', 182), (js ''part'', 8706),
    (js ''permil'', 8240), (js ''perp'', 8869), (js ''Phi'', 934), (js ''phi'', 966),
    (js ''Pi'', 928), (js ''pi'', 960), (js ''piv'', 982), (js ''plusmn'', 177),
    (js ''pound'', 163), (js ''prime'', 8242), (js ''Prime'', 8243), (js ''prod'', 8719),
    (js ''prop'', 8733), (js ''Psi'', 936), (js ''psi'', 968), (js ''quot'', 34),
    (js ''radic'', 8730), (js ''rang'', 9002), (js ''raquo'', 187), (js ''rarr'', 8594),
    (js ''rArr'', 8658), (js ''rceil'', 8969), (js ''rdquo'', 8221), (js ''real'', 8476),
    (js ''reg'', 174), (js ''rfloor'', 8971), (js ''Rho'', 929), (js ''rho'', 961),
    (js ''rlm'', 8207), (js ''rsaquo'', 8250), (js ''rsquo'', 8217), (js ''sbquo'', 8218),
    (js ''Scaron'', 352), (js ''scaron'', 353), (js ''sdot'', 8901), (js ''sect'', 167),
    (js ''shy'', 173), (js ''Sigma'', 931), (js ''sigma'', 963), (js ''sigmaf'', 962),
    (js ''sim'', 8764), (js ''spades'', 9824), (js ''sub'', 8834), (js ''sube'', 8838),
    (js ''sum'', 8721), (js ''sup'', 8835), (js ''sup1'', 185), (js ''sup2'', 178),
    (js ''sup3'', 179), (js ''supe'', 8839), (js ''szlig'', 223), (js ''Tau'', 932),
    (js ''tau'', 964), (js ''there4'', 8756), (js ''Theta'', 920), (js ''theta'', 952),
    (js ''thetasym'', 977), (js ''thinsp'', 8201), (js ''THORN'', 222), (js ''thorn'', 254),
    (js ''tilde'', 732), (js ''times'', 215), (js ''trade'', 8482), (js ''Uacute'', 218),
    (js ''uacute'', 250), (js ''uarr'', 8593), (js ''uArr'', 8657), (js ''Ucirc'', 219),
    (js ''ucirc'', 251), (js ''Ugrave'', 217), (js ''ugrave'', 249), (js ''uml'', 168),
    (js ''upsih'', 978), (js ''Upsilon'', 933), (js ''upsilon'', 965), (js ''Uuml'', 220),
    (js ''uuml'', 252), (js ''weierp'', 8472), (js ''Xi'', 926), (js ''xi'', 958),
    (js ''Yacute'', 221), (js ''yacute'', 253), (js ''yen'', 165), (js ''Yuml'', 376),
    (js ''yuml'', 255), (js ''Zeta'', 918), (js ''zeta'', 950), (js ''zwj'', 8205),
    (js ''zwnj'', 8204)]"

section \<open>TokenSanitizer.js: decoding character references\<close>

text \<open>
  \<open>decodeEntity\<close>. Both tables are object literals, so a name that \<open>Object.prototype\<close>
  defines is found in \<open>htmlEntityAliases\<close> (as a function), replaces the name, and is
  then no key of \<open>htmlEntities\<close>: the pseudo-entity is built from its text.
\<close>

definition decodeEntity :: "platform \<Rightarrow> jsstring \<Rightarrow> js_error + jsstring" where
  "decodeEntity P name =
     (case map_of htmlEntityAliases name of
        Some alias \<Rightarrow>
          (case map_of htmlEntities alias of
             Some e \<Rightarrow> codepointToUtf8 e
           | None \<Rightarrow> Inr (js ''&'' @ alias @ js '';''))
      | None \<Rightarrow>
          if name \<in> set objectPrototypeNames
          then Inr (js ''&'' @ inheritedToString P name @ js '';'')
          else
            (case map_of htmlEntities name of
               Some e \<Rightarrow> codepointToUtf8 e
             | None \<Rightarrow> Inr (js ''&'' @ name @ js '';'')))"

text \<open>
  \<open>parseInt(digits, radix)\<close> on a string of digits of that radix. The exact integer is
  taken; the double the runtime computes differs from it only above \<open>2^53\<close>, where
  \<open>validateCodepoint\<close> rejects both.
\<close>

definition hexValue :: "nat \<Rightarrow> int" where
  "hexValue c =
     (if isDigit c then int c - 0x30
      else if 0x41 \<le> c \<and> c \<le> 0x46 then int c - 0x41 + 10
      else int c - 0x61 + 10)"

definition parseInt :: "jsstring \<Rightarrow> int \<Rightarrow> int" where
  "parseInt ds radix = foldl (\<lambda>a d. a * radix + hexValue d) 0 ds"

text \<open>
  One match of \<open>CHAR_REFS_RE_G\<close>,
  \<open>/&([A-Za-z0-9\x80-\xff]+);|&#([0-9]+);|&#[xX]([0-9A-Fa-f]+);|(&)/g\<close>,
  at an ampersand: the group that took part, and the text after the match.
\<close>

datatype charRef = NamedRef jsstring | DecRef jsstring | HexRef jsstring | BareAmp

definition isEntityNameChar :: "nat \<Rightarrow> bool" where
  "isEntityNameChar c \<longleftrightarrow> isAlpha c \<or> isDigit c \<or> (0x80 \<le> c \<and> c \<le> 0xFF)"

text \<open>\<open>class+ ;\<close> at the head of a string: the run and what follows the semicolon.\<close>

definition runThenSemi :: "(nat \<Rightarrow> bool) \<Rightarrow> jsstring \<Rightarrow> (jsstring \<times> jsstring) option" where
  "runThenSemi cls r =
     (case dropWhile cls r of
        [] \<Rightarrow> None
      | d # ds \<Rightarrow> if takeWhile cls r \<noteq> [] \<and> d = 0x3B then Some (takeWhile cls r, ds) else None)"

definition charRefAt :: "jsstring \<Rightarrow> charRef \<times> jsstring" where
  "charRefAt r =
     (case runThenSemi isEntityNameChar r of
        Some (name, rest) \<Rightarrow> (NamedRef name, rest)
      | None \<Rightarrow>
         (case r of
            [] \<Rightarrow> (BareAmp, r)
          | h # r1 \<Rightarrow>
             if h \<noteq> 0x23 then (BareAmp, r)
             else
               (case runThenSemi isDigit r1 of
                  Some (ds, rest) \<Rightarrow> (DecRef ds, rest)
                | None \<Rightarrow>
                   (case r1 of
                      [] \<Rightarrow> (BareAmp, r)
                    | x # r2 \<Rightarrow>
                       if x = 0x78 \<or> x = 0x58 then
                         (case runThenSemi isHexDigit r2 of
                            Some (hs, rest) \<Rightarrow> (HexRef hs, rest)
                          | None \<Rightarrow> (BareAmp, r))
                       else (BareAmp, r)))))"

text \<open>The callback of \<open>decodeCharReferences\<close>.\<close>

definition decodeRef :: "platform \<Rightarrow> charRef \<Rightarrow> js_error + jsstring" where
  "decodeRef P ref =
     (case ref of
        NamedRef name \<Rightarrow> decodeEntity P name
      | DecRef ds \<Rightarrow> decodeChar (parseInt ds 10)
      | HexRef hs \<Rightarrow> decodeChar (parseInt hs 16)
      | BareAmp \<Rightarrow> Inr (js ''&''))"

lemma runThenSemi_length:
  "runThenSemi cls r = Some (a, rest) \<Longrightarrow> length rest < length r"
proof -
  assume h: "runThenSemi cls r = Some (a, rest)"
  then obtain d where d: "dropWhile cls r = d # rest"
    by (auto simp: runThenSemi_def split: list.splits if_splits)
  have "length (dropWhile cls r) \<le> length r" by (rule length_dropWhile_le)
  with d show ?thesis by simp
qed

lemma charRefAt_length: "charRefAt r = (ref, rest) \<Longrightarrow> length rest \<le> length r"
  by (auto simp: charRefAt_def split: option.splits list.splits if_splits
           dest!: runThenSemi_length)

function decodeCharReferences :: "platform \<Rightarrow> jsstring \<Rightarrow> js_error + jsstring" where
  "decodeCharReferences P [] = Inr []"
| "decodeCharReferences P (c # cs) =
     (if c = 0x26 then
        (case decodeRef P (fst (charRefAt cs)) of
           Inl e \<Rightarrow> Inl e
         | Inr s \<Rightarrow>
            (case decodeCharReferences P (snd (charRefAt cs)) of
               Inl e \<Rightarrow> Inl e
             | Inr r \<Rightarrow> Inr (s @ r)))
      else
        (case decodeCharReferences P cs of
           Inl e \<Rightarrow> Inl e
         | Inr r \<Rightarrow> Inr (c # r)))"
  by pat_completeness auto
termination
proof (relation "measure (\<lambda>(P, s). length s)")
  show "wf (measure (\<lambda>(P, s). length s))" by simp
next
  fix P :: platform and c :: nat and cs :: jsstring and x2 :: jsstring
  have "length (snd (charRefAt cs)) \<le> length cs"
    using charRefAt_length [of cs "fst (charRefAt cs)" "snd (charRefAt cs)"] by simp
  then show "((P, snd (charRefAt cs)), (P, c # cs)) \<in> measure (\<lambda>(P, s). length s)"
    by simp
next
  fix P :: platform and c :: nat and cs :: jsstring
  show "((P, cs), (P, c # cs)) \<in> measure (\<lambda>(P, s). length s)" by simp
qed

section \<open>TokenSanitizer.js: normalizeCss and checkCss\<close>

text \<open>
  One match of \<open>cssDecodeRE\<close> at a backslash,
  \<open>/\\(?:((?:\n|\r\n|\r|\f))|([0-9A-Fa-f]{1,6})[\x20\t\r\n\f]?|(.)|()$)/\<close>:
  the group that took part, and the text after the match. \<open>None\<close>: no match at this
  backslash (it is followed by U+2028 or U+2029).
\<close>

datatype cssEscape = LineContinuation | CharNumber jsstring | Cancelled nat | AtEnd

definition isCssSpace :: "nat \<Rightarrow> bool" where
  "isCssSpace c \<longleftrightarrow> c = 0x20 \<or> c = 0x09 \<or> c = 0x0D \<or> c = 0x0A \<or> c = 0x0C"

definition cssEscapeAt :: "jsstring \<Rightarrow> (cssEscape \<times> jsstring) option" where
  "cssEscapeAt r =
     (case r of
        [] \<Rightarrow> Some (AtEnd, [])
      | c # cs \<Rightarrow>
         if c = 0x0A then Some (LineContinuation, cs)
         else if c = 0x0D \<and> startsWith [0x0A] cs then Some (LineContinuation, drop 1 cs)
         else if c = 0x0D \<or> c = 0x0C then Some (LineContinuation, cs)
         else if isHexDigit c then
           (let hs = takeWhile isHexDigit (take 6 r); rest = drop (length hs) r
            in Some (CharNumber hs,
                     (case rest of [] \<Rightarrow> [] | d # ds \<Rightarrow> if isCssSpace d then ds else rest)))
         else if \<not> isLineTerminator c then Some (Cancelled c, cs)
         else None)"

definition hexDigitLower :: "nat \<Rightarrow> nat" where
  "hexDigitLower d = (if d < 10 then 0x30 + d else 0x61 + (d - 10))"

text \<open>\<open>n.toString(16)\<close> for a number below 256.\<close>

definition toString16 :: "nat \<Rightarrow> jsstring" where
  "toString16 n =
     (if n < 16 then [hexDigitLower n]
      else [hexDigitLower (n div 16), hexDigitLower (n mod 16)])"

text \<open>
  \<open>cssDecodeCallback\<close>. The character number goes to \<open>String.fromCodePoint\<close> as it
  is: above 0x10FFFF the call throws RangeError.
\<close>

definition cssDecodeCallback :: "cssEscape \<Rightarrow> js_error + jsstring" where
  "cssDecodeCallback esc =
     (case esc of
        LineContinuation \<Rightarrow> Inr []
      | _ \<Rightarrow>
        (case (case esc of
                 CharNumber hs \<Rightarrow> codepointToUtf8 (parseInt hs 16)
               | Cancelled ch \<Rightarrow> Inr [ch]
               | _ \<Rightarrow> Inr [0x5C]) of
           Inl e \<Rightarrow> Inl e
         | Inr c \<Rightarrow>
            if c = [0x0A] \<or> c = [0x22] \<or> c = [0x27] \<or> c = [0x5C]
            then Inr ([0x5C] @ toString16 (hd c) @ js '' '')
            else Inr c))"

text \<open>
  \<open>text.replace(cssDecodeRE, cssDecodeCallback)\<close>. The expression has no \<open>g\<close> flag:
  the first match is replaced and the rest of the text is kept as it is.
\<close>

fun cssDecode :: "jsstring \<Rightarrow> js_error + jsstring" where
  "cssDecode [] = Inr []"
| "cssDecode (c # cs) =
     (if c = 0x5C \<and> cssEscapeAt cs \<noteq> None then
        (case cssDecodeCallback (fst (the (cssEscapeAt cs))) of
           Inl e \<Rightarrow> Inl e
         | Inr s \<Rightarrow> Inr (s @ snd (the (cssEscapeAt cs))))
      else
        (case cssDecode cs of
           Inl e \<Rightarrow> Inl e
         | Inr r \<Rightarrow> Inr (c # r)))"

text \<open>\<open>/[\uFF00-\uFFEF]/g\<close>: the halfwidth and fullwidth block, U+FF3C kept.\<close>

definition fullwidthChar :: "nat \<Rightarrow> nat" where
  "fullwidthChar u =
     (if 0xFF00 \<le> u \<and> u \<le> 0xFFEF then (if u = 0xFF3C then u else u - 65248) else u)"

text \<open>The map \<open>ieReplace\<close>.\<close>

definition ieReplace :: "nat \<Rightarrow> nat" where
  "ieReplace u =
     (if u = 0x0280 then 0x72
      else if u = 0x0274 then 0x6E
      else if u = 0x207F then 0x6E
      else if u = 0x029F then 0x6C
      else if u = 0x026A then 0x69
      else if u = 0x207D then 0x28
      else if u = 0x208D then 0x28
      else u)"

text \<open>
  \<open>/\/\*(.*?)\*\//g\<close> replaced by a space. \<open>commentEnd\<close> is the text after the nearest
  \<open>*/\<close> that is reached without crossing a line terminator.
\<close>

fun commentEnd :: "jsstring \<Rightarrow> jsstring option" where
  "commentEnd [] = None"
| "commentEnd (c # cs) =
     (if startsWith (js ''*/'') (c # cs) then Some (drop 1 cs)
      else if isLineTerminator c then None
      else commentEnd cs)"

lemma commentEnd_length: "commentEnd s = Some r \<Longrightarrow> length r < length s"
  by (induction s) (auto split: if_splits)

function stripComments :: "jsstring \<Rightarrow> jsstring" where
  "stripComments [] = []"
| "stripComments (c # cs) =
     (if startsWith (js ''/*'') (c # cs) \<and> commentEnd (drop 1 cs) \<noteq> None
      then 0x20 # stripComments (the (commentEnd (drop 1 cs)))
      else c # stripComments cs)"
  by pat_completeness auto
termination
proof (relation "measure length")
  show "wf (measure length)" by simp
next
  fix c :: nat and cs :: jsstring
  assume "startsWith (js ''/*'') (c # cs) \<and> commentEnd (drop 1 cs) \<noteq> None"
  then obtain r where r: "commentEnd (drop 1 cs) = Some r" by auto
  from commentEnd_length [OF r] have "length r < length (c # cs)" by simp
  with r show "(the (commentEnd (drop 1 cs)), c # cs) \<in> measure length" by simp
next
  fix c :: nat and cs :: jsstring
  show "(cs, c # cs) \<in> measure length" by simp
qed

text \<open>
  \<open>removeMismatchedQuoteChar\<close>: when the quote occurs an odd number of times, the first
  match of \<open>/q([^q\n\r\f]*)$/\<close> has its quote replaced by a space.
\<close>

fun replaceTrailingQuote :: "nat \<Rightarrow> jsstring \<Rightarrow> jsstring" where
  "replaceTrailingQuote q [] = []"
| "replaceTrailingQuote q (c # cs) =
     (if c = q \<and> list_all (\<lambda>d. d \<noteq> q \<and> d \<noteq> 0x0A \<and> d \<noteq> 0x0D \<and> d \<noteq> 0x0C) cs
      then 0x20 # cs
      else c # replaceTrailingQuote q cs)"

definition removeMismatchedQuoteChar :: "jsstring \<Rightarrow> nat \<Rightarrow> jsstring" where
  "removeMismatchedQuoteChar str quoteChar =
     (if length (filter (\<lambda>c. c = quoteChar) str) mod 2 = 1
      then replaceTrailingQuote quoteChar str
      else str)"

text \<open>\<open>text.substr(0, text.indexOf('/*'))\<close> when \<open>/*\<close> occurs.\<close>

fun truncateAtComment :: "jsstring \<Rightarrow> jsstring" where
  "truncateAtComment [] = []"
| "truncateAtComment (c # cs) =
     (if startsWith (js ''/*'') (c # cs) then [] else c # truncateAtComment cs)"

text \<open>\<open>/s(?:\u3031|\u309D|\u30FC|\u30FD|\uFE7C|\uFE7D|\uFF70)/ig\<close> replaced by \<open>ss\<close>.\<close>

definition isSoundMark :: "nat \<Rightarrow> bool" where
  "isSoundMark c \<longleftrightarrow>
     c = 0x3031 \<or> c = 0x309D \<or> c = 0x30FC \<or> c = 0x30FD \<or> c = 0xFE7C \<or> c = 0xFE7D \<or> c = 0xFF70"

fun replaceSoundMarks :: "jsstring \<Rightarrow> jsstring" where
  "replaceSoundMarks [] = []"
| "replaceSoundMarks [c] = [c]"
| "replaceSoundMarks (c # d # ds) =
     (if (c = 0x73 \<or> c = 0x53) \<and> isSoundMark d
      then 0x73 # 0x73 # replaceSoundMarks ds
      else c # replaceSoundMarks (d # ds))"

definition normalizeCss :: "platform \<Rightarrow> jsstring \<Rightarrow> js_error + jsstring" where
  "normalizeCss P text =
     (case decodeCharReferences P text of
        Inl e \<Rightarrow> Inl e
      | Inr t1 \<Rightarrow>
         (case cssDecode t1 of
            Inl e \<Rightarrow> Inl e
          | Inr t2 \<Rightarrow>
              Inr (replaceSoundMarks
                    (truncateAtComment
                      (removeMismatchedQuoteChar
                        (removeMismatchedQuoteChar
                          (stripComments (map ieReplace (map fullwidthChar t2)))
                          0x27)
                        0x22)))))"

text \<open>\<open>/[\u0000-\u0008\u000B\u000E-\u001F\u007F]/\<close>.\<close>

definition isCssControlChar :: "nat \<Rightarrow> bool" where
  "isCssControlChar c \<longleftrightarrow> c \<le> 0x08 \<or> c = 0x0B \<or> (0x0E \<le> c \<and> c \<le> 0x1F) \<or> c = 0x7F"

text \<open>A regular expression that is not anchored is tried at every position.\<close>

fun matchesSomewhere :: "(jsstring \<Rightarrow> bool) \<Rightarrow> jsstring \<Rightarrow> bool" where
  "matchesSomewhere m [] = m []"
| "matchesSomewhere m (c # cs) = (m (c # cs) \<or> matchesSomewhere m cs)"

text \<open>\<open>kw\s*ch\<close> at the head of a string, letters compared without case.\<close>

definition keywordThen :: "jsstring \<Rightarrow> nat \<Rightarrow> jsstring \<Rightarrow> bool" where
  "keywordThen kw ch s \<longleftrightarrow>
     startsWithCI kw s \<and>
     startsWith [ch] (dropWhile isSpace (drop (length kw) s))"

text \<open>
  \<open>[^)]+[\s,]+url\<close> at the head of a string: \<open>attrUrlTail\<close> is the part after the
  first character.
\<close>

fun attrUrlTail :: "jsstring \<Rightarrow> bool" where
  "attrUrlTail [] = False"
| "attrUrlTail (c # cs) =
     (c \<noteq> 0x29 \<and>
      (((isSpace c \<or> c = 0x2C) \<and> startsWithCI (js ''url'') cs)
       \<or> attrUrlTail cs))"

definition attrUrl :: "jsstring \<Rightarrow> bool" where
  "attrUrl s \<longleftrightarrow>
     keywordThen (js ''attr'') 0x28 s \<and>
     (case drop 1 (dropWhile isSpace (drop 4 s)) of
        [] \<Rightarrow> False
      | c # cs \<Rightarrow> c \<noteq> 0x29 \<and> attrUrlTail cs)"

text \<open>\<open>insecureRE\<close>, with the \<open>i\<close> flag, at the head of a string.\<close>

definition insecureAt :: "jsstring \<Rightarrow> bool" where
  "insecureAt s \<longleftrightarrow>
     startsWithCI (js ''expression'') s
     \<or> keywordThen (js ''filter'') 0x3A s
     \<or> keywordThen (js ''accelerator'') 0x3A s
     \<or> keywordThen (js ''-o-link'') 0x3A s
     \<or> keywordThen (js ''-o-link-source'') 0x3A s
     \<or> keywordThen (js ''-o-replace'') 0x3A s
     \<or> keywordThen (js ''url'') 0x28 s
     \<or> keywordThen (js ''image'') 0x28 s
     \<or> keywordThen (js ''image-set'') 0x28 s
     \<or> attrUrl s"

definition insecureRE :: "jsstring \<Rightarrow> bool" where
  "insecureRE text \<longleftrightarrow> matchesSomewhere insecureAt text"

definition checkCss :: "platform \<Rightarrow> jsstring \<Rightarrow> js_error + jsstring" where
  "checkCss P text =
     (case normalizeCss P text of
        Inl e \<Rightarrow> Inl e
      | Inr t \<Rightarrow>
          if list_ex isCssControlChar t \<or> contains UTF8_REPLACEMENT t
          then Inr (js ''/* invalid control char */'')
          else if insecureRE t then Inr (js ''/* insecure input */'')
          else Inr t)"

section \<open>JavaScript values\<close>

text \<open>The values an attribute or a shadow entry holds: \<open>undefined\<close>, \<open>null\<close> or a string.\<close>

datatype jsval = Undefined | Null | Str jsstring

text \<open>\<open>ToString\<close>, as string concatenation and \<open>RegExp.prototype.test\<close> apply it.\<close>

definition toStr :: "jsval \<Rightarrow> jsstring" where
  "toStr x = (case x of Undefined \<Rightarrow> js ''undefined'' | Null \<Rightarrow> js ''null'' | Str s \<Rightarrow> s)"

section \<open>TokenSanitizer.js: cleanUrl\<close>

text \<open>\<open>IDN_RE_G\<close>: the characters \<open>stripIDNs\<close> deletes.\<close>

definition isIDNChar :: "nat \<Rightarrow> bool" where
  "isIDNChar c \<longleftrightarrow>
     c = 0x09 \<or> c = 0x20 \<or> c = 0x00AD \<or> c = 0x1806 \<or> c = 0x200B \<or> c = 0x2060 \<or>
     c = 0xFEFF \<or> c = 0x034F \<or> c = 0x180B \<or> c = 0x180C \<or> c = 0x180D \<or>
     c = 0x200C \<or> c = 0x200D \<or> (0xFE00 \<le> c \<and> c \<le> 0xFE0F)"

text \<open>\<open>host.replace(IDN_RE_G, '')\<close>.\<close>

fun stripIDNs :: "jsstring \<Rightarrow> jsstring" where
  "stripIDNs [] = []"
| "stripIDNs (c # cs) = (if isIDNChar c then stripIDNs cs else c # stripIDNs cs)"

text \<open>\<open>/([\][<>"\x00-\x20\x7F|])/g\<close>.\<close>

definition isUrlEscapedChar :: "nat \<Rightarrow> bool" where
  "isUrlEscapedChar c \<longleftrightarrow>
     c = 0x5D \<or> c = 0x5B \<or> c = 0x3C \<or> c = 0x3E \<or> c = 0x22 \<or> c \<le> 0x20 \<or>
     c = 0x7F \<or> c = 0x7C"

text \<open>\<open>href.replace(/([\][<>"\x00-\x20\x7F|])/g, Util.phpURLEncode)\<close>.\<close>

fun escapeUrlChars :: "jsstring \<Rightarrow> js_error + jsstring" where
  "escapeUrlChars [] = Inr []"
| "escapeUrlChars (c # cs) =
     (if isUrlEscapedChar c then
        (case phpURLEncode [c] of
           Inl e \<Rightarrow> Inl e
         | Inr s \<Rightarrow>
            (case escapeUrlChars cs of Inl e \<Rightarrow> Inl e | Inr r \<Rightarrow> Inr (s @ r)))
      else
        (case escapeUrlChars cs of Inl e \<Rightarrow> Inl e | Inr r \<Rightarrow> Inr (c # r)))"

text \<open>
  \<open>href.match(/^((?:[a-zA-Z][^:/]*:)?(?:\/\/)?)([^/]+)(\/?.*)/)\<close>.
  \<open>schemeAt\<close> is \<open>[a-zA-Z][^:/]*:\<close> at the head of the string: the scheme with its
  colon, and the text after it.
\<close>

definition notColonSlash :: "nat \<Rightarrow> bool" where
  "notColonSlash c \<longleftrightarrow> c \<noteq> 0x3A \<and> c \<noteq> 0x2F"

definition schemeAt :: "jsstring \<Rightarrow> (jsstring \<times> jsstring) option" where
  "schemeAt s =
     (case s of
        [] \<Rightarrow> None
      | c # cs \<Rightarrow>
         if isAlpha c \<and> startsWith (js '':'') (dropWhile notColonSlash cs)
         then Some (c # takeWhile notColonSlash cs @ js '':'', drop 1 (dropWhile notColonSlash cs))
         else None)"

text \<open>
  The ways the first group \<open>(scheme)?(//)?\<close> can match, in the order the matcher tries
  them: each with the text that is left for the host.
\<close>

definition protoCandidates :: "jsstring \<Rightarrow> (jsstring \<times> jsstring) list" where
  "protoCandidates s =
     (case schemeAt s of
        None \<Rightarrow> []
      | Some (sch, r) \<Rightarrow>
          (if startsWith (js ''//'') r then [(sch @ js ''//'', drop 2 r)] else []) @ [(sch, r)])
     @ (if startsWith (js ''//'') s then [(js ''//'', drop 2 s)] else [])
     @ [([], s)]"

text \<open>\<open>(\/?.*)\<close>: an optional slash, then everything up to a line terminator.\<close>

definition pathPart :: "jsstring \<Rightarrow> jsstring" where
  "pathPart r =
     (case r of
        [] \<Rightarrow> []
      | c # cs \<Rightarrow>
         if c = 0x2F then c # takeWhile (\<lambda>d. \<not> isLineTerminator d) cs
         else takeWhile (\<lambda>d. \<not> isLineTerminator d) r)"

text \<open>The three groups of the match, or \<open>None\<close> when \<open>match\<close> returns \<open>null\<close>.\<close>

definition urlBits :: "jsstring \<Rightarrow> (jsstring \<times> jsstring \<times> jsstring) option" where
  "urlBits href =
     (case filter (\<lambda>(p, r). takeWhile (\<lambda>c. c \<noteq> 0x2F) r \<noteq> []) (protoCandidates href) of
        [] \<Rightarrow> None
      | (p, r) # _ \<Rightarrow>
          Some (p, takeWhile (\<lambda>c. c \<noteq> 0x2F) r, pathPart (dropWhile (\<lambda>c. c \<noteq> 0x2F) r)))"

text \<open>\<open>/^%5B([0-9A-Fa-f:.]+)%5D((:\d+)?)$/.exec(host)\<close>: the two groups.\<close>

definition isIPv6Char :: "nat \<Rightarrow> bool" where
  "isIPv6Char c \<longleftrightarrow> isHexDigit c \<or> c = 0x3A \<or> c = 0x2E"

definition ipv6Match :: "jsstring \<Rightarrow> (jsstring \<times> jsstring) option" where
  "ipv6Match host =
     (if startsWith (js ''%5B'') host \<and>
         takeWhile isIPv6Char (drop 3 host) \<noteq> [] \<and>
         startsWith (js ''%5D'') (dropWhile isIPv6Char (drop 3 host)) \<and>
         (let port = drop 3 (dropWhile isIPv6Char (drop 3 host))
          in port = [] \<or> (startsWith (js '':'') port \<and> drop 1 port \<noteq> [] \<and>
                           list_all isDigit (drop 1 port)))
      then Some (takeWhile isIPv6Char (drop 3 host),
                 drop 3 (dropWhile isIPv6Char (drop 3 host)))
      else None)"

text \<open>The configuration object \<open>conf\<close>: \<open>conf.wiki.hasValidProtocol\<close>.\<close>

record conf =
  hasValidProtocol :: "jsstring \<Rightarrow> bool"

text \<open>\<open>cleanUrl(conf, href, mode)\<close>; the result \<open>Null\<close> is the \<open>null\<close> of a refused protocol.\<close>

definition cleanUrl :: "conf \<Rightarrow> jsstring \<Rightarrow> jsstring \<Rightarrow> js_error + jsval" where
  "cleanUrl cf href mode =
     (case (if mode \<noteq> js ''wikilink'' then escapeUrlChars href else Inr href) of
        Inl e \<Rightarrow> Inl e
      | Inr href1 \<Rightarrow>
         (case urlBits href1 of
            None \<Rightarrow> Inr (Str href1)
          | Some (proto, host0, path) \<Rightarrow>
              if proto \<noteq> [] \<and> \<not> hasValidProtocol cf proto then Inr Null
              else
                (let host = stripIDNs host0
                 in case ipv6Match host of
                      Some (addr, port) \<Rightarrow>
                        Inr (Str (proto @ (js ''['' @ addr @ js '']'' @ port) @ path))
                    | None \<Rightarrow> Inr (Str (proto @ host @ path)))))"

section \<open>TokenSanitizer.js: the regular expressions of attribute sanitation\<close>

definition inRanges :: "(nat \<times> nat) list \<Rightarrow> nat \<Rightarrow> bool" where
  "inRanges rs c \<longleftrightarrow> list_ex (\<lambda>(lo, hi). lo \<le> c \<and> c \<le> hi) rs"

text \<open>
  \<open>getAttribsRegex\<close> is \<open>^(?:S|A)(?:B|A)*$\<close>: \<open>S\<close> is the class of code units
  \<open>attrNameStartRanges\<close>, \<open>B\<close> is \<open>S\<close> with \<open>-\<close> and \<open>.\<close>, and \<open>A\<close> is the list of
  alternatives \<open>attrNameAstralPairs\<close>, each a class of high surrogates followed by a class
  of low surrogates.
\<close>

definition attrNameStartRanges :: "(nat \<times> nat) list" where
  "attrNameStartRanges =
    [(0x30, 0x3A), (0x41, 0x5A), (0x5F, 0x5F), (0x61, 0x7A), (0xAA, 0xAA), (0xB2, 0xB2),
    (0xB3, 0xB3), (0xB5, 0xB5), (0xB9, 0xB9), (0xBA, 0xBA), (0xBC, 0xBE), (0xC0, 0xD6),
    (0xD8, 0xF6), (0xF8, 0x2C1), (0x2C6, 0x2D1), (0x2E0, 0x2E4), (0x2EC, 0x2EC),
    (0x2EE, 0x2EE), (0x370, 0x374), (0x376, 0x376), (0x377, 0x377), (0x37A, 0x37D),
    (0x37F, 0x37F), (0x386, 0x386), (0x388, 0x38A), (0x38C, 0x38C), (0x38E, 0x3A1),
    (0x3A3, 0x3F5), (0x3F7, 0x481), (0x48A, 0x52F), (0x531, 0x556), (0x559, 0x559),
    (0x561, 0x587), (0x5D0, 0x5EA), (0x5F0, 0x5F2), (0x620, 0x64A), (0x660, 0x669),
    (0x66E, 0x66E), (0x66F, 0x66F), (0x671, 0x6D3), (0x6D5, 0x6D5), (0x6E5, 0x6E5),
    (0x6E6, 0x6E6), (0x6EE, 0x6FC), (0x6FF, 0x6FF), (0x710, 0x710), (0x712, 0x72F),
    (0x74D, 0x7A5), (0x7B1, 0x7B1), (0x7C0, 0x7EA), (0x7F4, 0x7F4), (0x7F5, 0x7F5),
    (0x7FA, 0x7FA), (0x800, 0x815), (0x81A, 0x81A), (0x824, 0x824), (0x828, 0x828),
    (0x840, 0x858), (0x860, 0x86A), (0x8A0, 0x8B4), (0x8B6, 0x8BD), (0x904, 0x939),
    (0x93D, 0x93D), (0x950, 0x950), (0x958, 0x961), (0x966, 0x96F), (0x971, 0x980),
    (0x985, 0x98C), (0x98F, 0x98F), (0x990, 0x990), (0x993, 0x9A8), (0x9AA, 0x9B0),
    (0x9B2, 0x9B2), (0x9B6, 0x9B9), (0x9BD, 0x9BD), (0x9CE, 0x9CE), (0x9DC, 0x9DC),
    (0x9DD, 0x9DD), (0x9DF, 0x9E1), (0x9E6, 0x9F1), (0x9F4, 0x9F9), (0x9FC, 0x9FC),
    (0xA05, 0xA0A), (0xA0F, 0xA0F), (0xA10, 0xA10), (0xA13, 0xA28), (0xA2A, 0xA30),
    (0xA32, 0xA32), (0xA33, 0xA33), (0xA35, 0xA35), (0xA36, 0xA36), (0xA38, 0xA38),
    (0xA39, 0xA39), (0xA59, 0xA5C), (0xA5E, 0xA5E), (0xA66, 0xA6F), (0xA72, 0xA74),
    (0xA85, 0xA8D), (0xA8F, 0xA91), (0xA93, 0xAA8), (0xAAA, 0xAB0), (0xAB2, 0xAB2),
    (0xAB3, 0xAB3), (0xAB5, 0xAB9), (0xABD, 0xABD), (0xAD0, 0xAD0), (0xAE0, 0xAE0),
    (0xAE1, 0xAE1), (0xAE6, 0xAEF), (0xAF9, 0xAF9), (0xB05, 0xB0C), (0xB0F, 0xB0F),
    (0xB10, 0xB10), (0xB13, 0xB28), (0xB2A, 0xB30), (0xB32, 0xB32), (0xB33, 0xB33),
    (0xB35, 0xB39), (0xB3D, 0xB3D), (0xB5C, 0xB5C), (0xB5D, 0xB5D), (0xB5F, 0xB61),
    (0xB66, 0xB6F), (0xB71, 0xB77), (0xB83, 0xB83), (0xB85, 0xB8A), (0xB8E, 0xB90),
    (0xB92, 0xB95), (0xB99, 0xB99), (0xB9A, 0xB9A), (0xB9C, 0xB9C), (0xB9E, 0xB9E),
    (0xB9F, 0xB9F), (0xBA3, 0xBA3), (0xBA4, 0xBA4), (0xBA8, 0xBAA), (0xBAE, 0xBB9),
    (0xBD0, 0xBD0), (0xBE6, 0xBF2), (0xC05, 0xC0C), (0xC0E, 0xC10), (0xC12, 0xC28),
    (0xC2A, 0xC39), (0xC3D, 0xC3D), (0xC58, 0xC5A), (0xC60, 0xC60), (0xC61, 0xC61),
    (0xC66, 0xC6F), (0xC78, 0xC7E), (0xC80, 0xC80), (0xC85, 0xC8C), (0xC8E, 0xC90),
    (0xC92, 0xCA8), (0xCAA, 0xCB3), (0xCB5, 0xCB9), (0xCBD, 0xCBD), (0xCDE, 0xCDE),
    (0xCE0, 0xCE0), (0xCE1, 0xCE1), (0xCE6, 0xCEF), (0xCF1, 0xCF1), (0xCF2, 0xCF2),
    (0xD05, 0xD0C), (0xD0E, 0xD10), (0xD12, 0xD3A), (0xD3D, 0xD3D), (0xD4E, 0xD4E),
    (0xD54, 0xD56), (0xD58, 0xD61), (0xD66, 0xD78), (0xD7A, 0xD7F), (0xD85, 0xD96),
    (0xD9A, 0xDB1), (0xDB3, 0xDBB), (0xDBD, 0xDBD), (0xDC0, 0xDC6), (0xDE6, 0xDEF),
    (0xE01, 0xE30), (0xE32, 0xE32), (0xE33, 0xE33), (0xE40, 0xE46), (0xE50, 0xE59),
    (0xE81, 0xE81), (0xE82, 0xE82), (0xE84, 0xE84), (0xE87, 0xE87), (0xE88, 0xE88),
    (0xE8A, 0xE8A), (0xE8D, 0xE8D), (0xE94, 0xE97), (0xE99, 0xE9F), (0xEA1, 0xEA3),
    (0xEA5, 0xEA5), (0xEA7, 0xEA7), (0xEAA, 0xEAA), (0xEAB, 0xEAB), (0xEAD, 0xEB0),
    (0xEB2, 0xEB2), (0xEB3, 0xEB3), (0xEBD, 0xEBD), (0xEC0, 0xEC4), (0xEC6, 0xEC6),
    (0xED0, 0xED9), (0xEDC, 0xEDF), (0xF00, 0xF00), (0xF20, 0xF33), (0xF40, 0xF47),
    (0xF49, 0xF6C), (0xF88, 0xF8C), (0x1000, 0x102A), (0x103F, 0x1049), (0x1050, 0x1055),
    (0x105A, 0x105D), (0x1061, 0x1061), (0x1065, 0x1065), (0x1066, 0x1066), (0x106E, 0x1070),
    (0x1075, 0x1081), (0x108E, 0x108E), (0x1090, 0x1099), (0x10A0, 0x10C5), (0x10C7, 0x10C7),
    (0x10CD, 0x10CD), (0x10D0, 0x10FA), (0x10FC, 0x1248), (0x124A, 0x124D), (0x1250, 0x1256),
    (0x1258, 0x1258), (0x125A, 0x125D), (0x1260, 0x1288), (0x128A, 0x128D), (0x1290, 0x12B0),
    (0x12B2, 0x12B5), (0x12B8, 0x12BE), (0x12C0, 0x12C0), (0x12C2, 0x12C5), (0x12C8, 0x12D6),
    (0x12D8, 0x1310), (0x1312, 0x1315), (0x1318, 0x135A), (0x1369, 0x137C), (0x1380, 0x138F),
    (0x13A0, 0x13F5), (0x13F8, 0x13FD), (0x1401, 0x166C), (0x166F, 0x167F), (0x1681, 0x169A),
    (0x16A0, 0x16EA), (0x16EE, 0x16F8), (0x1700, 0x170C), (0x170E, 0x1711), (0x1720, 0x1731),
    (0x1740, 0x1751), (0x1760, 0x176C), (0x176E, 0x1770), (0x1780, 0x17B3), (0x17D7, 0x17D7),
    (0x17DC, 0x17DC), (0x17E0, 0x17E9), (0x17F0, 0x17F9), (0x1810, 0x1819), (0x1820, 0x1877),
    (0x1880, 0x1884), (0x1887, 0x18A8), (0x18AA, 0x18AA), (0x18B0, 0x18F5), (0x1900, 0x191E),
    (0x1946, 0x196D), (0x1970, 0x1974), (0x1980, 0x19AB), (0x19B0, 0x19C9), (0x19D0, 0x19DA),
    (0x1A00, 0x1A16), (0x1A20, 0x1A54), (0x1A80, 0x1A89), (0x1A90, 0x1A99), (0x1AA7, 0x1AA7),
    (0x1B05, 0x1B33), (0x1B45, 0x1B4B), (0x1B50, 0x1B59), (0x1B83, 0x1BA0), (0x1BAE, 0x1BE5),
    (0x1C00, 0x1C23), (0x1C40, 0x1C49), (0x1C4D, 0x1C7D), (0x1C80, 0x1C88), (0x1CE9, 0x1CEC),
    (0x1CEE, 0x1CF1), (0x1CF5, 0x1CF5), (0x1CF6, 0x1CF6), (0x1D00, 0x1DBF), (0x1E00, 0x1F15),
    (0x1F18, 0x1F1D), (0x1F20, 0x1F45), (0x1F48, 0x1F4D), (0x1F50, 0x1F57), (0x1F59, 0x1F59),
    (0x1F5B, 0x1F5B), (0x1F5D, 0x1F5D), (0x1F5F, 0x1F7D), (0x1F80, 0x1FB4), (0x1FB6, 0x1FBC),
    (0x1FBE, 0x1FBE), (0x1FC2, 0x1FC4), (0x1FC6, 0x1FCC), (0x1FD0, 0x1FD3), (0x1FD6, 0x1FDB),
    (0x1FE0, 0x1FEC), (0x1FF2, 0x1FF4), (0x1FF6, 0x1FFC), (0x2070, 0x2070), (0x2071, 0x2071),
    (0x2074, 0x2079), (0x207F, 0x2089), (0x2090, 0x209C), (0x2102, 0x2102), (0x2107, 0x2107),
    (0x210A, 0x2113), (0x2115, 0x2115), (0x2119, 0x211D), (0x2124, 0x2124), (0x2126, 0x2126),
    (0x2128, 0x2128), (0x212A, 0x212D), (0x212F, 0x2139), (0x213C, 0x213F), (0x2145, 0x2149),
    (0x214E, 0x214E), (0x2150, 0x2189), (0x2460, 0x249B), (0x24EA, 0x24FF), (0x2776, 0x2793),
    (0x2C00, 0x2C2E), (0x2C30, 0x2C5E), (0x2C60, 0x2CE4), (0x2CEB, 0x2CEE), (0x2CF2, 0x2CF2),
    (0x2CF3, 0x2CF3), (0x2CFD, 0x2CFD), (0x2D00, 0x2D25), (0x2D27, 0x2D27), (0x2D2D, 0x2D2D),
    (0x2D30, 0x2D67), (0x2D6F, 0x2D6F), (0x2D80, 0x2D96), (0x2DA0, 0x2DA6), (0x2DA8, 0x2DAE),
    (0x2DB0, 0x2DB6), (0x2DB8, 0x2DBE), (0x2DC0, 0x2DC6), (0x2DC8, 0x2DCE), (0x2DD0, 0x2DD6),
    (0x2DD8, 0x2DDE), (0x2E2F, 0x2E2F), (0x3005, 0x3007), (0x3021, 0x3029), (0x3031, 0x3035),
    (0x3038, 0x303C), (0x3041, 0x3096), (0x309D, 0x309F), (0x30A1, 0x30FA), (0x30FC, 0x30FF),
    (0x3105, 0x312E), (0x3131, 0x318E), (0x3192, 0x3195), (0x31A0, 0x31BA), (0x31F0, 0x31FF),
    (0x3220, 0x3229), (0x3248, 0x324F), (0x3251, 0x325F), (0x3280, 0x3289), (0x32B1, 0x32BF),
    (0x3400, 0x4DB5), (0x4E00, 0x9FEA), (0xA000, 0xA48C), (0xA4D0, 0xA4FD), (0xA500, 0xA60C),
    (0xA610, 0xA62B), (0xA640, 0xA66E), (0xA67F, 0xA69D), (0xA6A0, 0xA6EF), (0xA717, 0xA71F),
    (0xA722, 0xA788), (0xA78B, 0xA7AE), (0xA7B0, 0xA7B7), (0xA7F7, 0xA801), (0xA803, 0xA805),
    (0xA807, 0xA80A), (0xA80C, 0xA822), (0xA830, 0xA835), (0xA840, 0xA873), (0xA882, 0xA8B3),
    (0xA8D0, 0xA8D9), (0xA8F2, 0xA8F7), (0xA8FB, 0xA8FB), (0xA8FD, 0xA8FD), (0xA900, 0xA925),
    (0xA930, 0xA946), (0xA960, 0xA97C), (0xA984, 0xA9B2), (0xA9CF, 0xA9D9), (0xA9E0, 0xA9E4),
    (0xA9E6, 0xA9FE), (0xAA00, 0xAA28), (0xAA40, 0xAA42), (0xAA44, 0xAA4B), (0xAA50, 0xAA59),
    (0xAA60, 0xAA76), (0xAA7A, 0xAA7A), (0xAA7E, 0xAAAF), (0xAAB1, 0xAAB1), (0xAAB5, 0xAAB5),
    (0xAAB6, 0xAAB6), (0xAAB9, 0xAABD), (0xAAC0, 0xAAC0), (0xAAC2, 0xAAC2), (0xAADB, 0xAADD),
    (0xAAE0, 0xAAEA), (0xAAF2, 0xAAF4), (0xAB01, 0xAB06), (0xAB09, 0xAB0E), (0xAB11, 0xAB16),
    (0xAB20, 0xAB26), (0xAB28, 0xAB2E), (0xAB30, 0xAB5A), (0xAB5C, 0xAB65), (0xAB70, 0xABE2),
    (0xABF0, 0xABF9), (0xAC00, 0xD7A3), (0xD7B0, 0xD7C6), (0xD7CB, 0xD7FB), (0xF900, 0xFA6D),
    (0xFA70, 0xFAD9), (0xFB00, 0xFB06), (0xFB13, 0xFB17), (0xFB1D, 0xFB1D), (0xFB1F, 0xFB28),
    (0xFB2A, 0xFB36), (0xFB38, 0xFB3C), (0xFB3E, 0xFB3E), (0xFB40, 0xFB40), (0xFB41, 0xFB41),
    (0xFB43, 0xFB43), (0xFB44, 0xFB44), (0xFB46, 0xFBB1), (0xFBD3, 0xFD3D), (0xFD50, 0xFD8F),
    (0xFD92, 0xFDC7), (0xFDF0, 0xFDFB), (0xFE70, 0xFE74), (0xFE76, 0xFEFC), (0xFF10, 0xFF19),
    (0xFF21, 0xFF3A), (0xFF41, 0xFF5A), (0xFF66, 0xFFBE), (0xFFC2, 0xFFC7), (0xFFCA, 0xFFCF),
    (0xFFD2, 0xFFD7), (0xFFDA, 0xFFDC)]"

definition attrNameAstralPairs :: "((nat \<times> nat) list \<times> (nat \<times> nat) list) list" where
  "attrNameAstralPairs = [
    ([(0xD800, 0xD800)],
      [(0xDC00, 0xDC0B), (0xDC0D, 0xDC26), (0xDC28, 0xDC3A), (0xDC3C, 0xDC3C),
      (0xDC3D, 0xDC3D), (0xDC3F, 0xDC4D), (0xDC50, 0xDC5D), (0xDC80, 0xDCFA), (0xDD07, 0xDD33),
      (0xDD40, 0xDD78), (0xDD8A, 0xDD8A), (0xDD8B, 0xDD8B), (0xDE80, 0xDE9C), (0xDEA0, 0xDED0),
      (0xDEE1, 0xDEFB), (0xDF00, 0xDF23), (0xDF2D, 0xDF4A), (0xDF50, 0xDF75), (0xDF80, 0xDF9D),
      (0xDFA0, 0xDFC3), (0xDFC8, 0xDFCF), (0xDFD1, 0xDFD5)]),
    ([(0xD801, 0xD801)],
      [(0xDC00, 0xDC9D), (0xDCA0, 0xDCA9), (0xDCB0, 0xDCD3), (0xDCD8, 0xDCFB),
      (0xDD00, 0xDD27), (0xDD30, 0xDD63), (0xDE00, 0xDF36), (0xDF40, 0xDF55), (0xDF60, 0xDF67)]),
    ([(0xD802, 0xD802)],
      [(0xDC00, 0xDC05), (0xDC08, 0xDC08), (0xDC0A, 0xDC35), (0xDC37, 0xDC37),
      (0xDC38, 0xDC38), (0xDC3C, 0xDC3C), (0xDC3F, 0xDC55), (0xDC58, 0xDC76), (0xDC79, 0xDC9E),
      (0xDCA7, 0xDCAF), (0xDCE0, 0xDCF2), (0xDCF4, 0xDCF4), (0xDCF5, 0xDCF5), (0xDCFB, 0xDD1B),
      (0xDD20, 0xDD39), (0xDD80, 0xDDB7), (0xDDBC, 0xDDCF), (0xDDD2, 0xDE00), (0xDE10, 0xDE13),
      (0xDE15, 0xDE17), (0xDE19, 0xDE33), (0xDE40, 0xDE47), (0xDE60, 0xDE7E), (0xDE80, 0xDE9F),
      (0xDEC0, 0xDEC7), (0xDEC9, 0xDEE4), (0xDEEB, 0xDEEF), (0xDF00, 0xDF35), (0xDF40, 0xDF55),
      (0xDF58, 0xDF72), (0xDF78, 0xDF91), (0xDFA9, 0xDFAF)]),
    ([(0xD803, 0xD803)],
      [(0xDC00, 0xDC48), (0xDC80, 0xDCB2), (0xDCC0, 0xDCF2), (0xDCFA, 0xDCFF), (0xDE60, 0xDE7E)]),
    ([(0xD804, 0xD804)],
      [(0xDC03, 0xDC37), (0xDC52, 0xDC6F), (0xDC83, 0xDCAF), (0xDCD0, 0xDCE8),
      (0xDCF0, 0xDCF9), (0xDD03, 0xDD26), (0xDD36, 0xDD3F), (0xDD50, 0xDD72), (0xDD76, 0xDD76),
      (0xDD83, 0xDDB2), (0xDDC1, 0xDDC4), (0xDDD0, 0xDDDA), (0xDDDC, 0xDDDC), (0xDDE1, 0xDDF4),
      (0xDE00, 0xDE11), (0xDE13, 0xDE2B), (0xDE80, 0xDE86), (0xDE88, 0xDE88), (0xDE8A, 0xDE8D),
      (0xDE8F, 0xDE9D), (0xDE9F, 0xDEA8), (0xDEB0, 0xDEDE), (0xDEF0, 0xDEF9), (0xDF05, 0xDF0C),
      (0xDF0F, 0xDF0F), (0xDF10, 0xDF10), (0xDF13, 0xDF28), (0xDF2A, 0xDF30), (0xDF32, 0xDF32),
      (0xDF33, 0xDF33), (0xDF35, 0xDF39), (0xDF3D, 0xDF3D), (0xDF50, 0xDF50), (0xDF5D, 0xDF61)]),
    ([(0xD805, 0xD805)],
      [(0xDC00, 0xDC34), (0xDC47, 0xDC4A), (0xDC50, 0xDC59), (0xDC80, 0xDCAF),
      (0xDCC4, 0xDCC4), (0xDCC5, 0xDCC5), (0xDCC7, 0xDCC7), (0xDCD0, 0xDCD9), (0xDD80, 0xDDAE),
      (0xDDD8, 0xDDDB), (0xDE00, 0xDE2F), (0xDE44, 0xDE44), (0xDE50, 0xDE59), (0xDE80, 0xDEAA),
      (0xDEC0, 0xDEC9), (0xDF00, 0xDF19), (0xDF30, 0xDF3B)]),
    ([(0xD806, 0xD806)],
      [(0xDCA0, 0xDCF2), (0xDCFF, 0xDCFF), (0xDE00, 0xDE00), (0xDE0B, 0xDE32),
      (0xDE3A, 0xDE3A), (0xDE50, 0xDE50), (0xDE5C, 0xDE83), (0xDE86, 0xDE89), (0xDEC0, 0xDEF8)]),
    ([(0xD807, 0xD807)],
      [(0xDC00, 0xDC08), (0xDC0A, 0xDC2E), (0xDC40, 0xDC40), (0xDC50, 0xDC6C),
      (0xDC72, 0xDC8F), (0xDD00, 0xDD06), (0xDD08, 0xDD08), (0xDD09, 0xDD09), (0xDD0B, 0xDD30),
      (0xDD46, 0xDD46), (0xDD50, 0xDD59)]),
    ([(0xD808, 0xD808)],
      [(0xDC00, 0xDF99)]),
    ([(0xD809, 0xD809)],
      [(0xDC00, 0xDC6E), (0xDC80, 0xDD43)]),
    ([(0xD80C, 0xD80C), (0xD81C, 0xD820), (0xD840, 0xD868), (0xD86A, 0xD86C), (0xD86F, 0xD872), (0xD874, 0xD879)],
      [(0xDC00, 0xDFFF)]),
    ([(0xD80D, 0xD80D)],
      [(0xDC00, 0xDC2E)]),
    ([(0xD811, 0xD811)],
      [(0xDC00, 0xDE46)]),
    ([(0xD81A, 0xD81A)],
      [(0xDC00, 0xDE38), (0xDE40, 0xDE5E), (0xDE60, 0xDE69), (0xDED0, 0xDEED),
      (0xDF00, 0xDF2F), (0xDF40, 0xDF43), (0xDF50, 0xDF59), (0xDF5B, 0xDF61), (0xDF63, 0xDF77),
      (0xDF7D, 0xDF8F)]),
    ([(0xD81B, 0xD81B)],
      [(0xDF00, 0xDF44), (0xDF50, 0xDF50), (0xDF93, 0xDF9F), (0xDFE0, 0xDFE0), (0xDFE1, 0xDFE1)]),
    ([(0xD821, 0xD821)],
      [(0xDC00, 0xDFEC)]),
    ([(0xD822, 0xD822)],
      [(0xDC00, 0xDEF2)]),
    ([(0xD82C, 0xD82C)],
      [(0xDC00, 0xDD1E), (0xDD70, 0xDEFB)]),
    ([(0xD82F, 0xD82F)],
      [(0xDC00, 0xDC6A), (0xDC70, 0xDC7C), (0xDC80, 0xDC88), (0xDC90, 0xDC99)]),
    ([(0xD834, 0xD834)],
      [(0xDF60, 0xDF71)]),
    ([(0xD835, 0xD835)],
      [(0xDC00, 0xDC54), (0xDC56, 0xDC9C), (0xDC9E, 0xDC9E), (0xDC9F, 0xDC9F),
      (0xDCA2, 0xDCA2), (0xDCA5, 0xDCA5), (0xDCA6, 0xDCA6), (0xDCA9, 0xDCAC), (0xDCAE, 0xDCB9),
      (0xDCBB, 0xDCBB), (0xDCBD, 0xDCC3), (0xDCC5, 0xDD05), (0xDD07, 0xDD0A), (0xDD0D, 0xDD14),
      (0xDD16, 0xDD1C), (0xDD1E, 0xDD39), (0xDD3B, 0xDD3E), (0xDD40, 0xDD44), (0xDD46, 0xDD46),
      (0xDD4A, 0xDD50), (0xDD52, 0xDEA5), (0xDEA8, 0xDEC0), (0xDEC2, 0xDEDA), (0xDEDC, 0xDEFA),
      (0xDEFC, 0xDF14), (0xDF16, 0xDF34), (0xDF36, 0xDF4E), (0xDF50, 0xDF6E), (0xDF70, 0xDF88),
      (0xDF8A, 0xDFA8), (0xDFAA, 0xDFC2), (0xDFC4, 0xDFCB), (0xDFCE, 0xDFFF)]),
    ([(0xD83A, 0xD83A)],
      [(0xDC00, 0xDCC4), (0xDCC7, 0xDCCF), (0xDD00, 0xDD43), (0xDD50, 0xDD59)]),
    ([(0xD83B, 0xD83B)],
      [(0xDE00, 0xDE03), (0xDE05, 0xDE1F), (0xDE21, 0xDE21), (0xDE22, 0xDE22),
      (0xDE24, 0xDE24), (0xDE27, 0xDE27), (0xDE29, 0xDE32), (0xDE34, 0xDE37), (0xDE39, 0xDE39),
      (0xDE3B, 0xDE3B), (0xDE42, 0xDE42), (0xDE47, 0xDE47), (0xDE49, 0xDE49), (0xDE4B, 0xDE4B),
      (0xDE4D, 0xDE4F), (0xDE51, 0xDE51), (0xDE52, 0xDE52), (0xDE54, 0xDE54), (0xDE57, 0xDE57),
      (0xDE59, 0xDE59), (0xDE5B, 0xDE5B), (0xDE5D, 0xDE5D), (0xDE5F, 0xDE5F), (0xDE61, 0xDE61),
      (0xDE62, 0xDE62), (0xDE64, 0xDE64), (0xDE67, 0xDE6A), (0xDE6C, 0xDE72), (0xDE74, 0xDE77),
      (0xDE79, 0xDE7C), (0xDE7E, 0xDE7E), (0xDE80, 0xDE89), (0xDE8B, 0xDE9B), (0xDEA1, 0xDEA3),
      (0xDEA5, 0xDEA9), (0xDEAB, 0xDEBB)]),
    ([(0xD83C, 0xD83C)],
      [(0xDD00, 0xDD0C)]),
    ([(0xD869, 0xD869)],
      [(0xDC00, 0xDED6), (0xDF00, 0xDFFF)]),
    ([(0xD86D, 0xD86D)],
      [(0xDC00, 0xDF34), (0xDF40, 0xDFFF)]),
    ([(0xD86E, 0xD86E)],
      [(0xDC00, 0xDC1D), (0xDC20, 0xDFFF)]),
    ([(0xD873, 0xD873)],
      [(0xDC00, 0xDEA1), (0xDEB0, 0xDFFF)]),
    ([(0xD87A, 0xD87A)],
      [(0xDC00, 0xDFE0)]),
    ([(0xD87E, 0xD87E)],
      [(0xDC00, 0xDE1D)])]"

definition attrNameCharRanges :: "(nat \<times> nat) list" where
  "attrNameCharRanges = (0x2D, 0x2D) # (0x2E, 0x2E) # attrNameStartRanges"

definition isAttrNamePair :: "nat \<Rightarrow> nat \<Rightarrow> bool" where
  "isAttrNamePair c d \<longleftrightarrow>
     list_ex (\<lambda>(hi, lo). inRanges hi c \<and> inRanges lo d) attrNameAstralPairs"

fun attrNameRest :: "jsstring \<Rightarrow> bool" where
  "attrNameRest [] = True"
| "attrNameRest (c # cs) =
     ((inRanges attrNameCharRanges c \<and> attrNameRest cs) \<or>
      (case cs of [] \<Rightarrow> False | d # ds \<Rightarrow> isAttrNamePair c d \<and> attrNameRest ds))"

definition getAttribsRegex :: "jsstring \<Rightarrow> bool" where
  "getAttribsRegex k \<longleftrightarrow>
     (case k of
        [] \<Rightarrow> False
      | c # cs \<Rightarrow>
         (inRanges attrNameStartRanges c \<and> attrNameRest cs) \<or>
         (case cs of [] \<Rightarrow> False | d # ds \<Rightarrow> isAttrNamePair c d \<and> attrNameRest ds))"

text \<open>\<open>EVIL_URI_RE\<close>: \<open>/(^|\s|\*\/\s*)(javascript|vbscript)([^\w]|$)/i\<close>.\<close>

definition wordEnd :: "jsstring \<Rightarrow> bool" where
  "wordEnd r \<longleftrightarrow> (case r of [] \<Rightarrow> True | c # _ \<Rightarrow> \<not> isWordChar c)"

definition evilKeywordAt :: "jsstring \<Rightarrow> bool" where
  "evilKeywordAt s \<longleftrightarrow>
     (startsWithCI (js ''javascript'') s \<and> wordEnd (drop 10 s)) \<or>
     (startsWithCI (js ''vbscript'') s \<and> wordEnd (drop 8 s))"

text \<open>
  The scan keeps whether the first group can end at the current position (the start, after
  a white space character, after \<open>*/\<close>) and whether the last character was a star.
\<close>

fun evilScan :: "bool \<Rightarrow> bool \<Rightarrow> jsstring \<Rightarrow> bool" where
  "evilScan ok star [] = False"
| "evilScan ok star (c # cs) =
     ((ok \<and> evilKeywordAt (c # cs)) \<or>
      evilScan (isSpace c \<or> (star \<and> c = 0x2F)) (c = 0x2A) cs)"

definition EVIL_URI_RE :: "jsstring \<Rightarrow> bool" where
  "EVIL_URI_RE v \<longleftrightarrow> evilScan True False v"

text \<open>\<open>XMLNS_ATTRIBUTE_RE\<close>: \<open>/^xmlns:[:A-Z_a-z-.0-9]+$/\<close>.\<close>

definition isXmlnsChar :: "nat \<Rightarrow> bool" where
  "isXmlnsChar c \<longleftrightarrow>
     c = 0x3A \<or> isUpper c \<or> c = 0x5F \<or> isLower c \<or> c = 0x2D \<or> c = 0x2E \<or> isDigit c"

definition XMLNS_ATTRIBUTE_RE :: "jsstring \<Rightarrow> bool" where
  "XMLNS_ATTRIBUTE_RE k \<longleftrightarrow>
     startsWith (js ''xmlns:'') k \<and> drop 6 k \<noteq> [] \<and> list_all isXmlnsChar (drop 6 k)"

text \<open>\<open>/^data-(?!ooui)[^:]*$/i\<close>.\<close>

definition dataAttrRE :: "jsstring \<Rightarrow> bool" where
  "dataAttrRE k \<longleftrightarrow>
     startsWithCI (js ''data-'') k \<and> \<not> startsWithCI (js ''ooui'') (drop 5 k) \<and>
     list_all (\<lambda>c. c \<noteq> 0x3A) (drop 5 k)"

text \<open>\<open>/(?:^|\s)mw:.+?(?=$|\s)/\<close>; \<open>mwTail\<close> is \<open>.+?(?=$|\s)\<close> at the head of a string.\<close>

fun mwTail :: "jsstring \<Rightarrow> bool" where
  "mwTail [] = False"
| "mwTail (c # cs) =
     (\<not> isLineTerminator c \<and>
      (case cs of [] \<Rightarrow> True | d # _ \<Rightarrow> isSpace d \<or> mwTail cs))"

fun mwScan :: "bool \<Rightarrow> jsstring \<Rightarrow> bool" where
  "mwScan ok [] = False"
| "mwScan ok (c # cs) =
     ((ok \<and> startsWith (js ''mw:'') (c # cs) \<and> mwTail (drop 2 cs)) \<or> mwScan (isSpace c) cs)"

definition hasParsoidMarker :: "jsstring \<Rightarrow> bool" where
  "hasParsoidMarker v \<longleftrightarrow> mwScan True v"

text \<open>\<open>/^#mwt\d+$/\<close>.\<close>

definition isAboutId :: "jsstring \<Rightarrow> bool" where
  "isAboutId v \<longleftrightarrow>
     startsWith (js ''#mwt'') v \<and> drop 4 v \<noteq> [] \<and> list_all isDigit (drop 4 v)"

text \<open>\<open>/^mw:WikiLink(\/Interwiki)?$/\<close>.\<close>

definition isWikiLinkRel :: "jsstring \<Rightarrow> bool" where
  "isWikiLinkRel v \<longleftrightarrow> v = js ''mw:WikiLink'' \<or> v = js ''mw:WikiLink/Interwiki''"

text \<open>
  \<open>origV.replace(/(?:^|\s)(?!mw:\w)[^\s]*/g, '')\<close>. \<open>mwWord\<close> is the lookahead
  \<open>mw:\w\<close>. After the first match the expression can only match at a white space
  character (\<open>stripTokens\<close>); an empty first match leaves the first character in place.
\<close>

definition mwWord :: "jsstring \<Rightarrow> bool" where
  "mwWord s \<longleftrightarrow> startsWith (js ''mw:'') s \<and> (case drop 3 s of [] \<Rightarrow> False | c # _ \<Rightarrow> isWordChar c)"

function stripTokens :: "jsstring \<Rightarrow> jsstring" where
  "stripTokens [] = []"
| "stripTokens (c # cs) =
     (if isSpace c \<and> \<not> mwWord cs
      then stripTokens (dropWhile (\<lambda>d. \<not> isSpace d) cs)
      else c # stripTokens cs)"
  by pat_completeness auto
termination
  by (relation "measure length") (auto simp: le_imp_less_Suc length_dropWhile_le)

definition stripNonParsoid :: "jsstring \<Rightarrow> jsstring" where
  "stripNonParsoid s =
     (if \<not> mwWord s \<and> takeWhile (\<lambda>d. \<not> isSpace d) s \<noteq> []
      then stripTokens (dropWhile (\<lambda>d. \<not> isSpace d) s)
      else (case s of [] \<Rightarrow> [] | c # cs \<Rightarrow> c # stripTokens cs))"

text \<open>The set \<open>microData\<close>.\<close>

definition microData :: "jsstring list" where
  "microData =
     [js ''rel'', js ''rev'', js ''about'', js ''property'', js ''resource'', js ''datatype'',
      js ''typeof'', js ''itemid'', js ''itemprop'', js ''itemref'', js ''itemscope'',
      js ''itemtype'']"

section \<open>TokenSanitizer.js: the attribute whitelist\<close>

text \<open>\<open>SanitizerConstants.globalConfig\<close>.\<close>

record sanitizerConfig =
  allowRdfaAttrs :: bool
  allowMicrodataAttrs :: bool
  html5Mode :: bool

definition globalConfig :: sanitizerConfig where
  "globalConfig = \<lparr>allowRdfaAttrs = True, allowMicrodataAttrs = True, html5Mode = True\<rparr>"

text \<open>\<open>computeAttrWhiteList(config)\<close>: the table from tag name to attribute names.\<close>

definition computeAttrWhiteList :: "sanitizerConfig \<Rightarrow> (jsstring \<times> jsstring list) list" where
  "computeAttrWhiteList config =
     (let common0 = [js ''id'', js ''class'', js ''lang'', js ''dir'', js ''title'', js ''style''];
          common1 = common0 @
            [js ''aria-describedby'', js ''aria-flowto'', js ''aria-label'',
             js ''aria-labelledby'', js ''aria-owns'', js ''role''];
          rdfa = [js ''about'', js ''property'', js ''resource'', js ''datatype'', js ''typeof''];
          common2 = (if allowRdfaAttrs config then common1 @ rdfa else common1);
          mda = [js ''itemid'', js ''itemprop'', js ''itemref'', js ''itemscope'', js ''itemtype''];
          common = (if allowMicrodataAttrs config then common2 @ mda else common2);
          block = common @ [js ''align''];
          tablealign = [js ''align'', js ''valign''];
          tablecell =
            [js ''abbr'', js ''axis'', js ''headers'', js ''scope'', js ''rowspan'',
             js ''colspan'', js ''nowrap'', js ''width'', js ''height'', js ''bgcolor'']
      in [
        (js ''div'', block),
        (js ''center'', common),
        (js ''span'', common),
        (js ''h1'', block),
        (js ''h2'', block),
        (js ''h3'', block),
        (js ''h4'', block),
        (js ''h5'', block),
        (js ''h6'', block),
        (js ''bdo'', common),
        (js ''em'', common),
        (js ''strong'', common),
        (js ''cite'', common),
        (js ''dfn'', common),
        (js ''code'', common),
        (js ''samp'', common),
        (js ''kbd'', common),
        (js ''var'', common),
        (js ''abbr'', common),
        (js ''blockquote'', common @ [js ''cite'']),
        (js ''q'', common @ [js ''cite'']),
        (js ''sub'', common),
        (js ''sup'', common),
        (js ''p'', block),
        (js ''br'', common @ [js ''clear'']),
        (js ''wbr'', common),
        (js ''pre'', common @ [js ''width'']),
        (js ''ins'', common @ [js ''cite'', js ''datetime'']),
        (js ''del'', common @ [js ''cite'', js ''datetime'']),
        (js ''ul'', common @ [js ''type'']),
        (js ''ol'', common @ [js ''type'', js ''start'', js ''reversed'']),
        (js ''li'', common @ [js ''type'', js ''value'']),
        (js ''dl'', common),
        (js ''dd'', common),
        (js ''dt'', common),
        (js ''table'', common @ [js ''summary'', js ''width'', js ''border'', js ''frame'', js ''rules'', js ''cellspacing'', js ''cellpadding'', js ''align'', js ''bgcolor'']),
        (js ''caption'', block),
        (js ''thead'', common),
        (js ''tfoot'', common),
        (js ''tbody'', common),
        (js ''colgroup'', common @ [js ''span'']),
        (js ''col'', common @ [js ''span'']),
        (js ''tr'', common @ [js ''bgcolor''] @ tablealign),
        (js ''td'', common @ tablecell @ tablealign),
        (js ''th'', common @ tablecell @ tablealign),
        (js ''a'', common @ [js ''href'', js ''rel'', js ''rev'']),
        (js ''img'', common @ [js ''alt'', js ''src'', js ''width'', js ''height'', js ''srcset'']),
        (js ''audio'', common @ [js ''controls'', js ''preload'', js ''width'', js ''height'']),
        (js ''video'', common @ [js ''poster'', js ''controls'', js ''preload'', js ''width'', js ''height'']),
        (js ''source'', common @ [js ''type'', js ''src'']),
        (js ''track'', common @ [js ''type'', js ''src'', js ''srclang'', js ''kind'', js ''label'']),
        (js ''tt'', common),
        (js ''b'', common),
        (js ''i'', common),
        (js ''big'', common),
        (js ''small'', common),
        (js ''strike'', common),
        (js ''s'', common),
        (js ''u'', common),
        (js ''font'', common @ [js ''size'', js ''color'', js ''face'']),
        (js ''hr'', common @ [js ''width'']),
        (js ''ruby'', common),
        (js ''rb'', common),
        (js ''rp'', common),
        (js ''rt'', common),
        (js ''rtc'', common),
        (js ''math'', [js ''class'', js ''style'', js ''id'', js ''title'']),
        (js ''figure'', common),
        (js ''figure-inline'', common),
        (js ''figcaption'', common),
        (js ''bdi'', common),
        (js ''data'', common @ [js ''value'']),
        (js ''time'', common @ [js ''datetime'']),
        (js ''mark'', common),
        (js ''meta'', [js ''itemprop'', js ''content'']),
        (js ''link'', [js ''itemprop'', js ''href'', js ''title''])])"

text \<open>\<open>noEndTagSet\<close>.\<close>

definition noEndTagSet :: "jsstring list" where
  "noEndTagSet = [js ''br'']"

text \<open>
  \<open>getAttrWhiteList(tag)\<close>. \<open>attrWhiteListCache\<close> is an object literal that the calls
  fill: its own properties are the state, in creation order. A tag that is no own property
  but a property of \<open>Object.prototype\<close> is found there (the test \<open>!awlCache[tag]\<close>
  fails on the inherited value), and that value, which is no \<open>Set\<close>, is returned.
\<close>

datatype whiteList = WhiteSet "jsstring list" | InheritedValue

type_synonym attrWhiteListCache = "(jsstring \<times> jsstring list) list"

definition getAttrWhiteList ::
  "sanitizerConfig \<Rightarrow> attrWhiteListCache \<Rightarrow> jsstring \<Rightarrow> whiteList \<times> attrWhiteListCache" where
  "getAttrWhiteList config awlCache tag =
     (case map_of awlCache tag of
        Some wl \<Rightarrow> (WhiteSet wl, awlCache)
      | None \<Rightarrow>
          if tag \<in> set objectPrototypeNames then (InheritedValue, awlCache)
          else
            (let wl = (case map_of (computeAttrWhiteList config) tag of
                         Some l \<Rightarrow> l
                       | None \<Rightarrow> [])
             in (WhiteSet wl, awlCache @ [(tag, wl)])))"

text \<open>\<open>wlist.has(k)\<close>: a TypeError when the value is not a \<open>Set\<close>.\<close>

definition whiteListHas :: "whiteList \<Rightarrow> jsstring \<Rightarrow> js_error + bool" where
  "whiteListHas wlist k =
     (case wlist of WhiteSet wl \<Rightarrow> Inr (k \<in> set wl) | InheritedValue \<Rightarrow> Inl TypeError)"

section \<open>Plain objects\<close>

text \<open>
  The own properties of an object literal, in creation order. An assignment to the key
  \<open>__proto__\<close> reaches the accessor of \<open>Object.prototype\<close> and creates no own property;
  an assignment to an existing key keeps its place.
\<close>

type_synonym 'a jsobject = "(jsstring \<times> 'a) list"

fun obj_put :: "'a jsobject \<Rightarrow> jsstring \<Rightarrow> 'a \<Rightarrow> 'a jsobject" where
  "obj_put [] k x = [(k, x)]"
| "obj_put ((k', x') # ob) k x = (if k' = k then (k, x) # ob else (k', x') # obj_put ob k x)"

definition obj_set :: "'a jsobject \<Rightarrow> jsstring \<Rightarrow> 'a \<Rightarrow> 'a jsobject" where
  "obj_set ob k x = (if k = js ''__proto__'' then ob else obj_put ob k x)"

text \<open>
  \<open>Object.keys\<close>: the array indices (canonical decimal strings up to \<open>2^32 - 2\<close>) in
  ascending order, then the other keys in creation order.
\<close>

definition isArrayIndex :: "jsstring \<Rightarrow> bool" where
  "isArrayIndex k \<longleftrightarrow>
     k \<noteq> [] \<and> list_all isDigit k \<and> (k = js ''0'' \<or> hd k \<noteq> 0x30) \<and>
     parseInt k 10 \<le> 4294967294"

definition objectEntries :: "'a jsobject \<Rightarrow> (jsstring \<times> 'a) list" where
  "objectEntries ob =
     sort_key (\<lambda>(k, x). parseInt k 10) (filter (\<lambda>(k, x). isArrayIndex k) ob)
     @ filter (\<lambda>(k, x). \<not> isArrayIndex k) ob"

definition objectKeys :: "'a jsobject \<Rightarrow> jsstring list" where
  "objectKeys ob = map fst (objectEntries ob)"

section \<open>parser.defines.js: tokens\<close>

text \<open>
  A key-value pair. The key is a string; \<open>ksrc\<close> and \<open>vsrc\<close> are the source texts a
  tokenizer may attach (\<open>None\<close>: the field is not set).
\<close>

record KV =
  kv_k :: jsstring
  kv_v :: jsval
  kv_ksrc :: "jsstring option"
  kv_vsrc :: "jsstring option"

definition newKV :: "jsstring \<Rightarrow> jsval \<Rightarrow> KV" where
  "newKV k v = \<lparr>kv_k = k, kv_v = v, kv_ksrc = None, kv_vsrc = None\<rparr>"

text \<open>
  \<open>dataAttribs\<close>: the source range \<open>tsr\<close>, the syntax hint \<open>stx\<close>, and the shadow maps
  \<open>a\<close> and \<open>sa\<close> (\<open>None\<close>: the field is not set).
\<close>

record dataAttribs =
  da_tsr :: "(int \<times> int) option"
  da_stx :: "jsstring option"
  da_a :: "jsval jsobject option"
  da_sa :: "jsval jsobject option"

datatype tokenKind = TagTk | EndTagTk | SelfclosingTagTk

record tagToken =
  kind :: tokenKind
  name :: jsstring
  attribs :: "KV list"
  dataAttribs :: dataAttribs

text \<open>The tokens without attributes are kept as they are.\<close>

datatype token = Tag tagToken | CommentTk jsstring | NlTk | EOFTk

text \<open>\<open>Util.lookupKV\<close> and \<open>Util.lookup\<close>: the first pair whose trimmed key is the name.\<close>

definition lookupKV :: "KV list \<Rightarrow> jsstring \<Rightarrow> KV option" where
  "lookupKV kvs key = find (\<lambda>kv. trim (kv_k kv) = key) kvs"

definition lookup :: "KV list \<Rightarrow> jsstring \<Rightarrow> jsval" where
  "lookup kvs key = (case lookupKV kvs key of None \<Rightarrow> Null | Some kv \<Rightarrow> kv_v kv)"

definition getAttribute :: "tagToken \<Rightarrow> jsstring \<Rightarrow> jsval" where
  "getAttribute t nm = lookup (attribs t) nm"

definition addAttribute :: "tagToken \<Rightarrow> jsstring \<Rightarrow> jsval \<Rightarrow> tagToken" where
  "addAttribute t nm v = t\<lparr>attribs := attribs t @ [newKV nm v]\<rparr>"

text \<open>\<open>setShadowInfo(name, value, origValue)\<close>.\<close>

definition setShadowInfo :: "tagToken \<Rightarrow> jsstring \<Rightarrow> jsval \<Rightarrow> jsval \<Rightarrow> tagToken" where
  "setShadowInfo t nm v origValue =
     (if v \<noteq> origValue \<and> origValue \<noteq> Null then
        (let da = dataAttribs t;
             a1 = obj_set (case da_a da of None \<Rightarrow> [] | Some ob \<Rightarrow> ob) nm v;
             sa0 = (case da_sa da of None \<Rightarrow> [] | Some ob \<Rightarrow> ob);
             sa1 = (if origValue \<noteq> Undefined then obj_set sa0 nm origValue else sa0)
         in t\<lparr>dataAttribs := da\<lparr>da_a := Some a1, da_sa := Some sa1\<rparr>\<rparr>)
      else t)"

definition addNormalizedAttribute ::
  "tagToken \<Rightarrow> jsstring \<Rightarrow> jsval \<Rightarrow> jsval \<Rightarrow> tagToken" where
  "addNormalizedAttribute t nm v origValue = setShadowInfo (addAttribute t nm v) nm v origValue"

text \<open>
  The field \<open>value\<close> of \<open>getAttributeShadowInfo(name)\<close>, for a name that
  \<open>Object.prototype\<close> does not define (the sanitizer asks for \<open>rel\<close>, \<open>href\<close>,
  \<open>src\<close> and \<open>poster\<close>).
\<close>

definition obj_get :: "jsval jsobject \<Rightarrow> jsstring \<Rightarrow> jsval" where
  "obj_get ob k = (case map_of ob k of None \<Rightarrow> Undefined | Some x \<Rightarrow> x)"

definition getAttributeShadowInfo :: "tagToken \<Rightarrow> jsstring \<Rightarrow> jsval" where
  "getAttributeShadowInfo t nm =
     (let curVal = lookup (attribs t) nm
      in case da_a (dataAttribs t) of
           None \<Rightarrow> curVal
         | Some a \<Rightarrow>
            if obj_get a nm = Undefined then curVal
            else if obj_get a nm \<noteq> curVal then curVal
            else
              (case da_sa (dataAttribs t) of
                 None \<Rightarrow> curVal
               | Some sa \<Rightarrow> if obj_get sa nm = Undefined then curVal else obj_get sa nm))"

text \<open>\<open>Util.isHTMLTag\<close> on a tag token.\<close>

definition isHTMLTag :: "tagToken \<Rightarrow> bool" where
  "isHTMLTag t \<longleftrightarrow> da_stx (dataAttribs t) = Some (js ''html'')"

text \<open>
  \<open>getWTSource(env)\<close>: \<open>env.page.src.substring(tsr[0], tsr[1])\<close>. \<open>substring\<close> clamps
  both indices to the string and swaps them when the first is the larger. The
  environment \<open>None\<close> is \<open>undefined\<close>: reading \<open>env.page\<close> throws.
\<close>

record env =
  page_src :: jsstring

definition substring :: "jsstring \<Rightarrow> int \<Rightarrow> int \<Rightarrow> jsstring" where
  "substring s a b =
     (let a1 = nat (min (max a 0) (int (length s)));
          b1 = nat (min (max b 0) (int (length s)))
      in take (max a1 b1 - min a1 b1) (drop (min a1 b1) s))"

definition getWTSource :: "tagToken \<Rightarrow> env option \<Rightarrow> js_error + jsstring" where
  "getWTSource t e =
     (case e of
        None \<Rightarrow> Inl TypeError
      | Some ev \<Rightarrow>
         (case da_tsr (dataAttribs t) of
            None \<Rightarrow> Inl TypeError
          | Some (a, b) \<Rightarrow> Inr (substring (page_src ev) a b)))"

section \<open>TokenSanitizer.js: sanitizeTagAttrs\<close>

text \<open>\<open>isParsoidAttr(k, v, attrs)\<close>.\<close>

definition isParsoidAttr :: "jsstring \<Rightarrow> jsstring \<Rightarrow> KV list \<Rightarrow> bool" where
  "isParsoidAttr k v attrs \<longleftrightarrow>
     ((k = js ''typeof'' \<or> k = js ''property'' \<or> k = js ''rel'') \<and> hasParsoidMarker v) \<or>
     (k = js ''about'' \<and> isAboutId v) \<or>
     (k = js ''content'' \<and> hasParsoidMarker (toStr (lookup attrs (js ''property''))))"

text \<open>
  The result \<open>newAttrs\<close>: an object from the lower-case key to the array
  \<open>[newValue, origValue, origKey]\<close>, or to \<open>undefined\<close> (\<open>None\<close>).
\<close>

type_synonym attrEntry = "(jsval \<times> jsval \<times> jsstring) option"

text \<open>
  The checks that a key which is not Parsoid's own passes before its value is looked at:
  rejected, accepted with the value as it is (an XML namespace declaration), or passed on.
\<close>

datatype gate = Reject | AcceptAsIs | Proceed

definition attrGate ::
  "sanitizerConfig \<Rightarrow> whiteList \<Rightarrow> jsstring \<Rightarrow> jsstring \<Rightarrow> bool \<Rightarrow> js_error + gate" where
  "attrGate config wlist k v psdAttr =
     (if psdAttr then Inr Proceed
      else if \<not> getAttribsRegex k then Inr Reject
      else if allowRdfaAttrs config \<and> XMLNS_ATTRIBUTE_RE k then
        (if \<not> EVIL_URI_RE v then Inr AcceptAsIs else Inr Reject)
      else if \<not> (html5Mode config \<and> dataAttrRE k) then
        (case whiteListHas wlist k of
           Inl e \<Rightarrow> Inl e
         | Inr has \<Rightarrow> if \<not> has then Inr Reject else Inr Proceed)
      else Inr Proceed)"

text \<open>
  The end of the loop body: without a token the function returns (\<open>True\<close>); otherwise
  the value is stored, and without microdata support \<open>itemtype\<close> and \<open>itemid\<close> are set
  to \<open>undefined\<close> as long as \<open>itemscope\<close> is.
\<close>

definition storeAttr ::
  "sanitizerConfig \<Rightarrow> bool \<Rightarrow> attrEntry jsobject \<Rightarrow> jsstring \<Rightarrow> jsstring \<Rightarrow> jsstring
     \<Rightarrow> jsstring \<Rightarrow> bool \<times> attrEntry jsobject" where
  "storeAttr config hasToken newAttrs k v origV origK =
     (if \<not> hasToken then (True, newAttrs)
      else
        (let n1 = obj_set newAttrs k (Some (Str v, Str origV, origK))
         in if \<not> allowMicrodataAttrs config \<and>
               (case map_of n1 (js ''itemscope'') of None \<Rightarrow> True | Some x \<Rightarrow> x = None)
            then (False, obj_set (obj_set n1 (js ''itemtype'') None) (js ''itemid'') None)
            else (False, n1)))"

text \<open>
  One round of the loop, on the attribute \<open>a\<close> whose value has been made a string;
  \<open>attrs\<close> is the array as it is in this round. The token's attributes are this array
  (\<open>sanitizeToken\<close> passes \<open>token.attribs\<close>). The result tells whether the function
  returned in this round.
\<close>

definition sanitizeAttr ::
  "platform \<Rightarrow> sanitizerConfig \<Rightarrow> conf \<Rightarrow> whiteList \<Rightarrow> tagToken option \<Rightarrow> KV list \<Rightarrow> KV
     \<Rightarrow> attrEntry jsobject \<Rightarrow> js_error + (bool \<times> attrEntry jsobject)" where
  "sanitizeAttr P config cf wlist tok attrs a newAttrs =
     (let origK = (case kv_ksrc a of None \<Rightarrow> kv_k a | Some ks \<Rightarrow> if ks = [] then kv_k a else ks);
          k = toLowerCase P (kv_k a);
          v = toStr (kv_v a);
          origV = (case kv_vsrc a of None \<Rightarrow> v | Some vs \<Rightarrow> if vs = [] then v else vs);
          psdAttr = isParsoidAttr k v attrs
      in case attrGate config wlist k v psdAttr of
           Inl e \<Rightarrow> Inl e
         | Inr Reject \<Rightarrow> Inr (False, obj_set newAttrs k (Some (Null, Str origV, origK)))
         | Inr AcceptAsIs \<Rightarrow> Inr (False, obj_set newAttrs k (Some (Str v, Str origV, origK)))
         | Inr Proceed \<Rightarrow>
            (case (if k = js ''style'' then checkCss P v else Inr v) of
               Inl e \<Rightarrow> Inl e
             | Inr v1 \<Rightarrow>
                (case (if k = js ''id'' then escapeIdForAttribute v1 False else Inr v1) of
                   Inl e \<Rightarrow> Inl e
                 | Inr v2 \<Rightarrow>
                    if k \<in> set microData \<and> EVIL_URI_RE v2 then
                      Inr (False, obj_set newAttrs k
                             (Some (if psdAttr then Str (trim (stripNonParsoid origV)) else Null,
                                    Str origV, origK)))
                    else
                      (case tok of
                         Some t \<Rightarrow>
                           if k = js ''href'' \<or> k = js ''src'' \<or> k = js ''poster'' then
                             (let tk = t\<lparr>attribs := attrs\<rparr>;
                                  rel = getAttributeShadowInfo tk (js ''rel'');
                                  mode = (if k = js ''href'' \<and> isWikiLinkRel (toStr rel)
                                          then js ''wikilink'' else js ''external'');
                                  origHref = getAttributeShadowInfo tk k
                              in case cleanUrl cf v2 mode of
                                   Inl e \<Rightarrow> Inl e
                                 | Inr newHref \<Rightarrow>
                                    if newHref \<noteq> Str v2
                                    then Inr (False, obj_set newAttrs k (Some (newHref, origHref, origK)))
                                    else Inr (storeAttr config True newAttrs k v2 origV origK))
                           else Inr (storeAttr config True newAttrs k v2 origV origK)
                       | None \<Rightarrow> Inr (storeAttr config False newAttrs k v2 origV origK)))))"

text \<open>\<open>if ( !a.v ) { a.v = ''; }\<close>: the attribute is changed in the array.\<close>

definition normalizeValue :: "KV \<Rightarrow> KV" where
  "normalizeValue a =
     a\<lparr>kv_v := (case kv_v a of Str vs \<Rightarrow> Str vs | _ \<Rightarrow> Str [])\<rparr>"

text \<open>The loop: \<open>done\<close> are the attributes of the rounds before, as the rounds left them.\<close>

fun sanitizeAttrsLoop ::
  "platform \<Rightarrow> sanitizerConfig \<Rightarrow> conf \<Rightarrow> whiteList \<Rightarrow> tagToken option \<Rightarrow> KV list \<Rightarrow> KV list
     \<Rightarrow> attrEntry jsobject \<Rightarrow> js_error + attrEntry jsobject" where
  "sanitizeAttrsLoop P config cf wlist tok done [] newAttrs = Inr newAttrs"
| "sanitizeAttrsLoop P config cf wlist tok done (a # rest) newAttrs =
     (case sanitizeAttr P config cf wlist tok (done @ normalizeValue a # rest)
             (normalizeValue a) newAttrs of
        Inl e \<Rightarrow> Inl e
      | Inr (returned, n1) \<Rightarrow>
          if returned then Inr n1
          else sanitizeAttrsLoop P config cf wlist tok (done @ [normalizeValue a]) rest n1)"

text \<open>
  \<open>sanitizeTagAttrs(conf, tagName, token, attrs)\<close>, with the cache of whitelists as
  state. Without a tag name and without a token, reading \<open>token.name\<close> throws.
\<close>

definition sanitizeTagAttrs ::
  "platform \<Rightarrow> sanitizerConfig \<Rightarrow> conf \<Rightarrow> attrWhiteListCache \<Rightarrow> jsstring option
     \<Rightarrow> tagToken option \<Rightarrow> KV list \<Rightarrow> js_error + (attrEntry jsobject \<times> attrWhiteListCache)" where
  "sanitizeTagAttrs P config cf awlCache tagName tok attrs =
     (case (case tagName of
              Some tn \<Rightarrow> if tn \<noteq> [] then Some tn else map_option name tok
            | None \<Rightarrow> map_option name tok) of
        None \<Rightarrow> Inl TypeError
      | Some tg \<Rightarrow>
          (case sanitizeAttrsLoop P config cf (fst (getAttrWhiteList config awlCache tg)) tok
                  [] attrs [] of
             Inl e \<Rightarrow> Inl e
           | Inr newAttrs \<Rightarrow> Inr (newAttrs, snd (getAttrWhiteList config awlCache tg))))"

section \<open>TokenSanitizer.js: sanitizeToken\<close>

text \<open>The loop that rebuilds the string of a disallowed tag.\<close>

fun attrsSource :: "jsstring \<Rightarrow> KV list \<Rightarrow> jsstring" where
  "attrsSource buf [] = buf"
| "attrsSource buf (kv # kvs) =
     attrsSource (buf @ js '' '' @ kv_k kv @ js ''='' @ [0x27] @ toStr (kv_v kv) @ [0x27]) kvs"

text \<open>
  The callback of \<open>Object.keys( newAttrs ).forEach\<close>, on a key \<open>j\<close> and
  \<open>vs = newAttrs[ j ]\<close>: reading \<open>vs[ 0 ]\<close> of an entry that is \<open>undefined\<close> throws.
\<close>

definition applyEntry :: "tagToken \<Rightarrow> jsstring \<Rightarrow> attrEntry \<Rightarrow> js_error + tagToken" where
  "applyEntry t j vs =
     (case vs of
        None \<Rightarrow> Inl TypeError
      | Some (v0, v1, v2) \<Rightarrow>
          if v0 \<noteq> Null then Inr (addNormalizedAttribute t j v0 v1)
          else Inr (setShadowInfo t v2 v0 v1))"

fun applyEntries :: "tagToken \<Rightarrow> (jsstring \<times> attrEntry) list \<Rightarrow> js_error + tagToken" where
  "applyEntries t [] = Inr t"
| "applyEntries t ((j, vs) # es) =
     (case applyEntry t j vs of
        Inl e \<Rightarrow> Inl e
      | Inr t1 \<Rightarrow> applyEntries t1 es)"

text \<open>What \<open>sanitizeToken\<close> returns: a token, or the text of a disallowed tag.\<close>

datatype sanitized = Token token | Text jsstring

text \<open>
  \<open>sanitizeToken(conf, token, inTemplate)\<close>. \<open>thisConf\<close> is \<open>this.conf\<close>, the property
  \<open>conf\<close> of the object the method is called on. The method is static and is called on
  the class; the class defines no property \<open>conf\<close>, so that \<open>this.conf\<close> is
  \<open>undefined\<close> (\<open>None\<close>) unless a caller has set it.
\<close>

definition sanitizeToken ::
  "platform \<Rightarrow> sanitizerConfig \<Rightarrow> env option \<Rightarrow> attrWhiteListCache \<Rightarrow> conf \<Rightarrow> token \<Rightarrow> bool
     \<Rightarrow> js_error + (sanitized \<times> attrWhiteListCache)" where
  "sanitizeToken P config thisConf awlCache cf tk inTemplate =
     (case tk of
        Tag t \<Rightarrow>
          if isHTMLTag t \<and>
             (toUpperCase P (name t) \<notin> set (TagWhiteList P) \<or>
              (kind t = EndTagTk \<and> name t \<in> set noEndTagSet))
          then
            (if \<not> inTemplate \<and> da_tsr (dataAttribs t) \<noteq> None then
               (case getWTSource t thisConf of
                  Inl e \<Rightarrow> Inl e
                | Inr src \<Rightarrow> Inr (Text src, awlCache))
             else if kind t \<noteq> EndTagTk then
               Inr (Text (attrsSource (js ''<'' @ name t) (attribs t)
                          @ (if kind t = SelfclosingTagTk then js '' /'' else [])
                          @ js ''>''),
                    awlCache)
             else Inr (Text (js ''</'' @ name t @ js ''>''), awlCache))
          else if attribs t \<noteq> [] then
            (if kind t = TagTk \<or> kind t = SelfclosingTagTk then
               (case sanitizeTagAttrs P config cf awlCache None (Some t) (attribs t) of
                  Inl e \<Rightarrow> Inl e
                | Inr (newAttrs, cache1) \<Rightarrow>
                   (case applyEntries (t\<lparr>attribs := []\<rparr>) (objectEntries newAttrs) of
                      Inl e \<Rightarrow> Inl e
                    | Inr t1 \<Rightarrow> Inr (Token (Tag t1), cache1)))
             else Inr (Token (Tag (t\<lparr>attribs := []\<rparr>)), awlCache))
          else Inr (Token tk, awlCache)
      | _ \<Rightarrow> Inr (Token tk, awlCache))"

section \<open>Fixtures of the examples\<close>

text \<open>A platform for the examples: strings with non-ASCII code units keep their case.\<close>

definition testPlatform :: platform where
  "testPlatform =
     \<lparr>lowerNonAscii = (\<lambda>s. s), upperNonAscii = (\<lambda>s. s),
      inheritedToString = (\<lambda>s. js ''function '' @ s @ js ''() { [native code] }''),
      TagWhiteList = [js ''DIV'', js ''SPAN'', js ''BR'', js ''IMG'']\<rparr>"

text \<open>A protocol validator that accepts only http and https.\<close>

definition httpOnly :: conf where
  "httpOnly = \<lparr>hasValidProtocol =
     (\<lambda>p. p = js ''http:'' \<or> p = js ''https:'' \<or> p = js ''http://'' \<or> p = js ''https://'')\<rparr>"

text \<open>
  The condition of the specification under which \<open>checkCss\<close> rejects a normalized text:
  a control character, the replacement marker, or an insecure pattern.
\<close>

definition cssRejected :: "jsstring \<Rightarrow> bool" where
  "cssRejected n \<longleftrightarrow> list_ex isCssControlChar n \<or> contains UTF8_REPLACEMENT n \<or> insecureRE n"

text \<open>A token without provenance, with the attributes \<open>foo=bar\<close> and \<open>bar=foo\<close>.\<close>

definition emptyDataAttribs :: dataAttribs where
  "emptyDataAttribs = \<lparr>da_tsr = None, da_stx = None, da_a = None, da_sa = None\<rparr>"

definition fooBarToken :: "tokenKind \<Rightarrow> jsstring \<Rightarrow> tagToken" where
  "fooBarToken kd tg =
     \<lparr>kind = kd, name = tg,
      attribs = [newKV (js ''foo'') (Str (js ''bar'')), newKV (js ''bar'') (Str (js ''foo''))],
      dataAttribs = emptyDataAttribs\<rparr>"

text \<open>
  What \<open>sanitizeTagAttrs\<close> and \<open>sanitizeToken\<close> make of that token when the
  whitelist of its tag is \<open>{foo}\<close>.
\<close>

definition fooBarEntries :: "attrEntry jsobject" where
  "fooBarEntries =
     [(js ''foo'', Some (Str (js ''bar''), Str (js ''bar''), js ''foo'')),
      (js ''bar'', Some (Null, Str (js ''foo''), js ''bar''))]"

definition fooBarSanitized :: "tokenKind \<Rightarrow> jsstring \<Rightarrow> tagToken" where
  "fooBarSanitized kd tg =
     \<lparr>kind = kd, name = tg,
      attribs = [newKV (js ''foo'') (Str (js ''bar''))],
      dataAttribs = emptyDataAttribs
        \<lparr>da_a := Some [(js ''bar'', Null)], da_sa := Some [(js ''bar'', Str (js ''foo''))]\<rparr>\<rparr>"




text \<open>A \<open>script\<close> tag written as HTML, with the source range from 0 to 8.\<close>

definition disallowedScript :: tagToken where
  "disallowedScript =
     \<lparr>kind = TagTk, name = js ''script'', attribs = [],
      dataAttribs = \<lparr>da_tsr = Some (0, 8), da_stx = Some (js ''html''), da_a = None, da_sa = None\<rparr>\<rparr>"

section \<open>The properties of the specification\<close>

text \<open>
  The first test of \<open>sanitizeToken\<close>: an HTML-origin token whose upper-case name is not in
  the tag whitelist, or an end tag whose name is in the no-end-tag set.
\<close>

definition disallowedTag :: "platform \<Rightarrow> tagToken \<Rightarrow> bool" where
  "disallowedTag P t \<longleftrightarrow>
     isHTMLTag t \<and>
     (toUpperCase P (name t) \<notin> set (TagWhiteList P) \<or>
      (kind t = EndTagTk \<and> name t \<in> set noEndTagSet))"

text \<open>
  An attribute of the token is recognized as internally generated under the key \<open>k\<close>:
  in its round of the loop, where the attributes before it have their values made
  strings, \<open>isParsoidAttr\<close> holds of it.
\<close>

definition recognizedAsParsoid :: "platform \<Rightarrow> KV list \<Rightarrow> jsstring \<Rightarrow> bool" where
  "recognizedAsParsoid P attrs0 k \<longleftrightarrow>
     (\<exists>pre a rest. attrs0 = pre @ a # rest \<and> toLowerCase P (kv_k a) = k \<and>
        isParsoidAttr k (toStr (kv_v (normalizeValue a)))
          (map normalizeValue pre @ normalizeValue a # rest))"

text \<open>
  A key may stay on a sanitized tag: it is internally generated (\<open>psd\<close>), or it passes the
  key syntax and is an XML namespace declaration with RDFa enabled, a \<open>data-*\<close> key other
  than \<open>data-ooui\<close> in HTML5 mode, or a member of the whitelist.
\<close>

definition keyAdmitted :: "sanitizerConfig \<Rightarrow> whiteList \<Rightarrow> jsstring \<Rightarrow> bool \<Rightarrow> bool" where
  "keyAdmitted config wlist k psd \<longleftrightarrow>
     psd \<or>
     (getAttribsRegex k \<and>
      ((allowRdfaAttrs config \<and> XMLNS_ATTRIBUTE_RE k) \<or>
       (html5Mode config \<and> dataAttrRE k) \<or>
       whiteListHas wlist k = Inr True))"

definition entriesAdmitted ::
  "platform \<Rightarrow> sanitizerConfig \<Rightarrow> whiteList \<Rightarrow> KV list \<Rightarrow> attrEntry jsobject \<Rightarrow> bool" where
  "entriesAdmitted P config wlist attrs0 newAttrs \<longleftrightarrow>
     (\<forall>k v0 v1 ok. (k, Some (v0, v1, ok)) \<in> set newAttrs \<longrightarrow> v0 \<noteq> Null \<longrightarrow>
        keyAdmitted config wlist k (recognizedAsParsoid P attrs0 k))"





section \<open>Results\<close>

lemma codepointToUtf8_roundtrip:
  assumes "0 \<le> cp" "cp \<le> 0x10FFFF"
  shows "\<exists>s. codepointToUtf8 cp = Inr s \<and> utf8ToCodepoint s = Some cp
           \<and> length s = (if cp < 0x10000 then 1 else 2)"
proof (cases "cp < 0x10000")
  case True
  with assms show ?thesis by (simp add: codepointToUtf8_def)
next
  case False
  define n where "n = nat cp - 0x10000"
  have n: "n < 0x100000" "int n + 0x10000 = cp"
    using assms False by (simp_all add: n_def)
  have d: "n div 0x400 < 0x400" using n(1) by simp
  have m: "n mod 0x400 < 0x400" by simp
  have eq: "n div 0x400 * 0x400 + n mod 0x400 = n" by simp
  have "codepointToUtf8 cp = Inr [0xD800 + n div 0x400, 0xDC00 + n mod 0x400]"
    using assms False by (simp add: codepointToUtf8_def n_def)
  moreover have "utf8ToCodepoint [0xD800 + n div 0x400, 0xDC00 + n mod 0x400] = Some cp"
    using d m eq n(2) by simp
  ultimately show ?thesis using False by simp
qed

text \<open>
  C7. \<open>validateCodepoint\<close> accepts exactly 0x9, 0xA, 0xD and the ranges
  [0x20, 0xD7FF], [0xE000, 0xFFFD], [0x10000, 0x10FFFF]; it accepts 0x41 and 0x10FFFF and
  rejects 0xD800 and 0x110000. \<open>decodeChar\<close> returns the character of every accepted
  code point (the string whose first code point is the given one, of one code unit below
  0x10000 and two above) and the three code units 0xEF 0xBF 0xBD for every rejected one.
\<close>

theorem C7_validateCodepoint_decodeChar:
  "(validateCodepoint cp \<longleftrightarrow>
      cp \<in> {0x9, 0xA, 0xD} \<union> {0x20..0xD7FF} \<union> {0xE000..0xFFFD} \<union> {0x10000..0x10FFFF})
   \<and> validateCodepoint 0x41 \<and> validateCodepoint 0x10FFFF
   \<and> \<not> validateCodepoint 0xD800 \<and> \<not> validateCodepoint 0x110000
   \<and> (validateCodepoint cp \<longrightarrow>
        (\<exists>s. decodeChar cp = Inr s \<and> utf8ToCodepoint s = Some cp
             \<and> length s = (if cp < 0x10000 then 1 else 2)))
   \<and> (\<not> validateCodepoint cp \<longrightarrow> decodeChar cp = Inr [0xEF, 0xBF, 0xBD])"
proof -
  have a: "validateCodepoint cp \<longleftrightarrow>
      cp \<in> {0x9, 0xA, 0xD} \<union> {0x20..0xD7FF} \<union> {0xE000..0xFFFD} \<union> {0x10000..0x10FFFF}"
    by (auto simp: validateCodepoint_def)
  have b: "validateCodepoint 0x41 \<and> validateCodepoint 0x10FFFF
      \<and> \<not> validateCodepoint 0xD800 \<and> \<not> validateCodepoint 0x110000"
    by (simp add: validateCodepoint_def)
  have c: "validateCodepoint cp \<longrightarrow>
        (\<exists>s. decodeChar cp = Inr s \<and> utf8ToCodepoint s = Some cp
             \<and> length s = (if cp < 0x10000 then 1 else 2))"
  proof
    assume v: "validateCodepoint cp"
    then have "0 \<le> cp" "cp \<le> 0x10FFFF" by (auto simp: validateCodepoint_def)
    from codepointToUtf8_roundtrip [OF this] v show
      "\<exists>s. decodeChar cp = Inr s \<and> utf8ToCodepoint s = Some cp
             \<and> length s = (if cp < 0x10000 then 1 else 2)"
      by (simp add: decodeChar_def)
  qed
  have d: "\<not> validateCodepoint cp \<longrightarrow> decodeChar cp = Inr [0xEF, 0xBF, 0xBD]"
    by (simp add: decodeChar_def UTF8_REPLACEMENT_def)
  from a b c d show ?thesis by blast
qed

theorem C7_witness:
  "validateCodepoint 0x41 \<and> decodeChar 0x41 = Inr [0x41]
   \<and> \<not> validateCodepoint 0xD800 \<and> decodeChar 0xD800 = Inr [0xEF, 0xBF, 0xBD]
   \<and> decodeChar 0x1F600 = Inr [0xD83D, 0xDE00]"
  using C7_validateCodepoint_decodeChar [of "0x41"]
        C7_validateCodepoint_decodeChar [of "0xD800"]
  by (simp add: decodeChar_def validateCodepoint_def codepointToUtf8_def)

lemma replaceAll_single:
  "replaceAll [a] [b] s = map (\<lambda>c. if c = a then b else c) s"
  by (induction s) (simp_all add: startsWith_def)

lemma js_simps:
  "js [] = []" "js (c # cs) = of_char c # js cs"
  by (simp_all add: js_def)

lemmas class_defs =
  isDigit_def isUpper_def isLower_def isAlpha_def isHexDigit_def isWordChar_def
  isLineTerminator_def isSpace_def asciiLower_def

lemmas encode_defs =
  phpURLEncode_def uriUnescaped_def pctOctet_def utf8Octets_def hexDigitUpper_def

text \<open>
  C6. In mode \<open>html5\<close>, \<open>escapeIdInternal\<close> replaces every space by an underscore and
  changes nothing else (\<open>" a b"\<close> gives \<open>"_a_b"\<close>). In mode \<open>legacy\<close> it replaces the
  spaces by underscores, applies \<open>phpURLEncode\<close>, replaces every \<open>%3A\<close> by a colon and
  then every remaining \<open>%\<close> by a dot (\<open>" a:b"\<close> gives \<open>"_a:b"\<close>); an error of the encoder
  propagates. Any other mode string throws an Error.
\<close>

theorem C6_escapeIdInternal:
  "escapeIdInternal ident (js ''html5'') = Inr (map (\<lambda>c. if c = 0x20 then 0x5F else c) ident)
   \<and> escapeIdInternal (js '' a b'') (js ''html5'') = Inr (js ''_a_b'')
   \<and> escapeIdInternal ident (js ''legacy'') =
       (case phpURLEncode (map (\<lambda>c. if c = 0x20 then 0x5F else c) ident) of
          Inl e \<Rightarrow> Inl e
        | Inr s \<Rightarrow>
            Inr (map (\<lambda>c. if c = 0x25 then 0x2E else c)
                  (replaceAll (js ''%3A'') (js '':'') s)))
   \<and> escapeIdInternal (js '' a:b'') (js ''legacy'') = Inr (js ''_a:b'')
   \<and> (mode \<noteq> js ''html5'' \<and> mode \<noteq> js ''legacy'' \<longrightarrow>
        escapeIdInternal ident mode = Inl (Error (js ''Invalid mode: '' @ mode)))"
proof -
  have sp: "replaceAll (js '' '') (js ''_'') ident = map (\<lambda>c. if c = 0x20 then 0x5F else c) ident"
    for ident
    using replaceAll_single [of "0x20" "0x5F" ident] by (simp add: js_simps)
  have pc: "replaceAll (js ''%'') (js ''.'') s = map (\<lambda>c. if c = 0x25 then 0x2E else c) s"
    for s
    using replaceAll_single [of "0x25" "0x2E" s] by (simp add: js_simps)
  have ne: "js ''legacy'' \<noteq> js ''html5''" by (simp add: js_simps)
  have a: "escapeIdInternal ident (js ''html5'') =
      Inr (map (\<lambda>c. if c = 0x20 then 0x5F else c) ident)"
    by (simp add: escapeIdInternal_def sp)
  have b: "escapeIdInternal (js '' a b'') (js ''html5'') = Inr (js ''_a_b'')"
    by (simp add: escapeIdInternal_def js_simps startsWith_def)
  have c: "escapeIdInternal ident (js ''legacy'') =
       (case phpURLEncode (map (\<lambda>c. if c = 0x20 then 0x5F else c) ident) of
          Inl e \<Rightarrow> Inl e
        | Inr s \<Rightarrow>
            Inr (map (\<lambda>c. if c = 0x25 then 0x2E else c)
                  (replaceAll (js ''%3A'') (js '':'') s)))"
    unfolding escapeIdInternal_def sp pc using ne by simp
  have d: "escapeIdInternal (js '' a:b'') (js ''legacy'') = Inr (js ''_a:b'')"
    by (simp add: escapeIdInternal_def js_simps startsWith_def encode_defs class_defs)
  have e: "mode \<noteq> js ''html5'' \<and> mode \<noteq> js ''legacy'' \<longrightarrow>
        escapeIdInternal ident mode = Inl (Error (js ''Invalid mode: '' @ mode))"
    by (simp add: escapeIdInternal_def)
  from a b c d e show ?thesis by blast
qed

theorem C6_witness:
  "js ''html4'' \<noteq> js ''html5'' \<and> js ''html4'' \<noteq> js ''legacy''
   \<and> escapeIdInternal (js ''a b'') (js ''html4'') = Inl (Error (js ''Invalid mode: html4''))
   \<and> escapeIdInternal (js ''a b'') (js ''html5'') = Inr (js ''a_b'')"
  using C6_escapeIdInternal [of "js ''a b''" "js ''html4''"]
  by (simp add: js_simps startsWith_def)

subsection \<open>Style sheets\<close>

lemmas css_defs =
  normalizeCss_def checkCss_def charRefAt_def runThenSemi_def isEntityNameChar_def
  decodeRef_def parseInt_def hexValue_def decodeChar_def validateCodepoint_def
  codepointToUtf8_def fullwidthChar_def ieReplace_def removeMismatchedQuoteChar_def
  cssEscapeAt_def cssDecodeCallback_def isCssSpace_def toString16_def hexDigitLower_def
  isSoundMark_def isCssControlChar_def insecureRE_def insecureAt_def keywordThen_def
  attrUrl_def startsWithCI_def startsWith_def UTF8_REPLACEMENT_def

lemma checkCss_control: "checkCss P [7] = Inr (js ''/* invalid control char */'')"
  by (simp add: css_defs js_simps class_defs)

lemma checkCss_expression:
  "checkCss P (js ''color: expression(alert(1))'') = Inr (js ''/* insecure input */'')"
  by (simp add: css_defs js_simps class_defs)

lemma normalizeCss_control: "normalizeCss P [7] = Inr [7]"
  by (simp add: css_defs js_simps class_defs)

lemma normalizeCss_expression:
  "normalizeCss P (js ''expression'') = Inr (js ''expression'')"
  by (simp add: css_defs js_simps class_defs)

lemma checkCss_expression2:
  "checkCss P (js ''expression'') = Inr (js ''/* insecure input */'')"
  by (simp add: css_defs js_simps class_defs)

text \<open>
  \<open>normalizeCss\<close> hands the number of a CSS escape to \<open>String.fromCodePoint\<close>
  unchecked; when it throws, so does \<open>checkCss\<close>.
\<close>

lemma checkCss_error: "normalizeCss P t = Inl e \<Longrightarrow> checkCss P t = Inl e"
  by (simp add: checkCss_def)

lemma normalizeCss_RangeError: "normalizeCss P ([0x5C] @ js ''110000'') = Inl RangeError"
  by (simp add: css_defs js_simps class_defs)

text \<open>
  C3, as the specification states it: one fixed placeholder stands for every rejected
  value. No such string exists: a control character and an insecure pattern give two
  different placeholders.
\<close>

theorem C3_counterexample:
  "\<not> (\<exists>placeholder. \<forall>P t n. normalizeCss P t = Inr n \<longrightarrow>
         checkCss P t = Inr (if cssRejected n then placeholder else n))"
proof
  assume "\<exists>placeholder. \<forall>P t n. normalizeCss P t = Inr n \<longrightarrow>
         checkCss P t = Inr (if cssRejected n then placeholder else n)"
  then obtain p where p: "\<And>P t n. normalizeCss P t = Inr n \<Longrightarrow>
         checkCss P t = Inr (if cssRejected n then p else n)" by blast
  have r1: "cssRejected [7]" by (simp add: cssRejected_def isCssControlChar_def)
  have r2: "cssRejected (js ''expression'')"
    by (simp add: cssRejected_def insecureRE_def insecureAt_def startsWithCI_def js_simps)
  have "checkCss undefined [7] = Inr p" using p [OF normalizeCss_control] r1 by simp
  then have e1: "p = js ''/* invalid control char */''"
    unfolding checkCss_control by simp
  have "checkCss undefined (js ''expression'') = Inr p"
    using p [OF normalizeCss_expression] r2 by simp
  then have e2: "p = js ''/* insecure input */''"
    unfolding checkCss_expression2 by simp
  from e1 e2 have "js ''/* invalid control char */'' = js ''/* insecure input */''" by simp
  then show False by (simp add: js_simps)
qed

text \<open>
  C3, amended. For every string \<open>t\<close> that \<open>normalizeCss\<close> turns into a text \<open>n\<close>:
  \<open>checkCss(t)\<close> is \<open>/* invalid control char */\<close> when \<open>n\<close> holds a control character
  of [0x00-0x08], 0x0B, [0x0E-0x1F], 0x7F or the replacement marker; otherwise it is
  \<open>/* insecure input */\<close> when \<open>n\<close> matches the insecure pattern; otherwise it is \<open>n\<close>
  unchanged. In particular \<open>checkCss("color: expression(alert(1))")\<close> is
  \<open>/* insecure input */\<close>.
\<close>

theorem C3_checkCss:
  "(normalizeCss P t = Inr n \<longrightarrow>
      checkCss P t =
        Inr (if list_ex isCssControlChar n \<or> contains UTF8_REPLACEMENT n
             then js ''/* invalid control char */''
             else if insecureRE n then js ''/* insecure input */''
             else n))
   \<and> (normalizeCss P t = Inr n \<and> \<not> cssRejected n \<longrightarrow> checkCss P t = Inr n)
   \<and> checkCss P (js ''color: expression(alert(1))'') = Inr (js ''/* insecure input */'')"
proof -
  have a: "normalizeCss P t = Inr n \<longrightarrow>
      checkCss P t =
        Inr (if list_ex isCssControlChar n \<or> contains UTF8_REPLACEMENT n
             then js ''/* invalid control char */''
             else if insecureRE n then js ''/* insecure input */''
             else n)"
    by (simp add: checkCss_def)
  have b: "normalizeCss P t = Inr n \<and> \<not> cssRejected n \<longrightarrow> checkCss P t = Inr n"
    by (simp add: checkCss_def cssRejected_def)
  from a b checkCss_expression show ?thesis by blast
qed

theorem C3_witness:
  "normalizeCss testPlatform (js ''color: red'') = Inr (js ''color: red'')
   \<and> \<not> cssRejected (js ''color: red'')
   \<and> checkCss testPlatform (js ''color: red'') = Inr (js ''color: red'')"
proof -
  have n: "normalizeCss testPlatform (js ''color: red'') = Inr (js ''color: red'')"
    by (simp add: css_defs js_simps class_defs)
  have r: "\<not> cssRejected (js ''color: red'')"
    by (simp add: cssRejected_def css_defs js_simps class_defs)
  from C3_checkCss [of testPlatform "js ''color: red''" "js ''color: red''"] n r
  show ?thesis by blast
qed

text \<open>
  C8. \<open>normalizeCss\<close> is not idempotent: \<open>&#38;#65;\<close> is normalized to \<open>&#65;\<close>, which
  is normalized to \<open>A\<close>.
\<close>

theorem C8_normalizeCss_not_idempotent:
  "normalizeCss P (js ''&#38;#65;'') = Inr (js ''&#65;'')
   \<and> normalizeCss P (js ''&#65;'') = Inr (js ''A'')
   \<and> (\<exists>x y z. normalizeCss P x = Inr y \<and> normalizeCss P y = Inr z \<and> z \<noteq> y)"
proof -
  have a: "normalizeCss P (js ''&#38;#65;'') = Inr (js ''&#65;'')"
    by (simp add: css_defs js_simps class_defs)
  have b: "normalizeCss P (js ''&#65;'') = Inr (js ''A'')"
    by (simp add: css_defs js_simps class_defs)
  have c: "js ''A'' \<noteq> js ''&#65;''" by (simp add: js_simps)
  from a b c show ?thesis by blast
qed


theorem C8_witness:
  "\<exists>x y z. normalizeCss testPlatform x = Inr y \<and> normalizeCss testPlatform y = Inr z \<and> z \<noteq> y"
  using C8_normalizeCss_not_idempotent [of testPlatform] by blast

subsection \<open>URLs\<close>

lemmas url_defs =
  cleanUrl_def isUrlEscapedChar_def urlBits_def protoCandidates_def schemeAt_def
  notColonSlash_def pathPart_def ipv6Match_def isIPv6Char_def isIDNChar_def startsWith_def

lemma encodeURIComponent_single:
  "c < 0xD800 \<Longrightarrow> \<exists>s. encodeURIComponent [c] = Inr s"
  by simp

lemma phpURLEncode_single:
  "c < 0xD800 \<Longrightarrow> \<exists>s. phpURLEncode [c] = Inr s"
  using encodeURIComponent_single [of c] by (auto simp: phpURLEncode_def)

lemma escapeUrlChars_total: "\<exists>h. escapeUrlChars href = Inr h"
proof (induction href)
  case Nil
  show ?case by simp
next
  case (Cons c cs)
  then obtain r where r: "escapeUrlChars cs = Inr r" by blast
  show ?case
  proof (cases "isUrlEscapedChar c")
    case True
    then have "c < 0xD800" by (auto simp: isUrlEscapedChar_def)
    from phpURLEncode_single [OF this] obtain s where "phpURLEncode [c] = Inr s" by blast
    with True r show ?thesis by simp
  next
    case False
    with r show ?thesis by simp
  qed
qed

lemma cleanUrl_javascript:
  "\<not> hasValidProtocol cf (js ''javascript:'') \<Longrightarrow>
   cleanUrl cf (js ''javascript:alert(1)'') (js ''external'') = Inr Null"
  by (simp add: url_defs js_simps class_defs encode_defs)

lemma cleanUrl_space:
  "hasValidProtocol cf (js ''http://'') \<Longrightarrow>
   cleanUrl cf (js ''http://example.com/a b'') (js ''external'') =
     Inr (Str (js ''http://example.com/a+b''))"
  by (simp add: url_defs js_simps class_defs encode_defs)

text \<open>
  C2, as the specification states it, fails on its second example: the space of
  \<open>http://example.com/a b\<close> is not encoded as \<open>%20\<close>.
\<close>

theorem C2_counterexample:
  "cleanUrl httpOnly (js ''http://example.com/a b'') (js ''external'')
     \<noteq> Inr (Str (js ''http://example.com/a%20b''))"
proof -
  have "hasValidProtocol httpOnly (js ''http://'')" by (simp add: httpOnly_def)
  from cleanUrl_space [OF this] show ?thesis by (simp add: js_simps)
qed

text \<open>
  C2, amended. \<open>cleanUrl\<close> returns \<open>null\<close> for every input whose parsed protocol prefix
  (the first group of the match, on the href as escaped for the mode) is non-empty and
  rejected by the protocol validator; with a validator that rejects \<open>javascript:\<close>,
  \<open>javascript:alert(1)\<close> gives \<open>null\<close> in non-wikilink mode; with a validator that
  accepts \<open>http://\<close>, \<open>http://example.com/a b\<close> gives the URL with the space encoded as
  \<open>+\<close> in non-wikilink mode.
\<close>

theorem C2_cleanUrl:
  "(\<exists>h1. (if mode \<noteq> js ''wikilink'' then escapeUrlChars href else Inr href) = Inr h1 \<and>
         (\<forall>proto host path.
            urlBits h1 = Some (proto, host, path) \<and> proto \<noteq> [] \<and> \<not> hasValidProtocol cf proto
            \<longrightarrow> cleanUrl cf href mode = Inr Null))
   \<and> (\<not> hasValidProtocol cf (js ''javascript:'') \<longrightarrow>
        cleanUrl cf (js ''javascript:alert(1)'') (js ''external'') = Inr Null)
   \<and> (hasValidProtocol cf (js ''http://'') \<longrightarrow>
        cleanUrl cf (js ''http://example.com/a b'') (js ''external'') =
          Inr (Str (js ''http://example.com/a+b'')))"
proof -
  obtain h1 where h1: "(if mode \<noteq> js ''wikilink'' then escapeUrlChars href else Inr href) = Inr h1"
    using escapeUrlChars_total [of href] by (cases "mode \<noteq> js ''wikilink''") auto
  have "\<forall>proto host path.
            urlBits h1 = Some (proto, host, path) \<and> proto \<noteq> [] \<and> \<not> hasValidProtocol cf proto
            \<longrightarrow> cleanUrl cf href mode = Inr Null"
    using h1 by (auto simp: cleanUrl_def)
  with h1 cleanUrl_javascript cleanUrl_space show ?thesis by blast
qed

theorem C2_witness:
  "cleanUrl httpOnly (js ''javascript:alert(1)'') (js ''external'') = Inr Null
   \<and> cleanUrl httpOnly (js ''http://example.com/a b'') (js ''external'') =
       Inr (Str (js ''http://example.com/a+b''))
   \<and> cleanUrl httpOnly (js ''ftp://example.com/'') (js ''wikilink'') = Inr Null"
proof -
  have v: "hasValidProtocol httpOnly (js ''http://'')"
    and n: "\<not> hasValidProtocol httpOnly (js ''javascript:'')"
    and f: "\<not> hasValidProtocol httpOnly (js ''ftp://'')"
    by (simp_all add: httpOnly_def js_simps)
  have b: "urlBits (js ''ftp://example.com/'') = Some (js ''ftp://'', js ''example.com'', js ''/'')"
    by (simp add: url_defs js_simps class_defs)
  have p: "js ''ftp://'' \<noteq> []" by (simp add: js_simps)
  from C2_cleanUrl [of "js ''wikilink''" "js ''ftp://example.com/''" httpOnly] v n f b p
  show ?thesis by auto
qed

lemma stripIDNs_filter: "stripIDNs host = filter (\<lambda>c. \<not> isIDNChar c) host"
  by (induction host) simp_all

lemma ipv6Match_set:
  "ipv6Match h = Some (addr, port) \<Longrightarrow> set addr \<union> set port \<subseteq> set h"
proof -
  assume m: "ipv6Match h = Some (addr, port)"
  then have a: "addr = takeWhile isIPv6Char (drop 3 h)"
    and p: "port = drop 3 (dropWhile isIPv6Char (drop 3 h))"
    by (auto simp: ipv6Match_def split: if_splits)
  have "set addr \<subseteq> set h" unfolding a
    using set_takeWhileD set_drop_subset by fastforce
  moreover have "set port \<subseteq> set h" unfolding p
    using set_drop_subset set_dropWhileD by (metis (no_types, lifting) in_mono subsetI)
  ultimately show ?thesis by simp
qed

text \<open>
  C10. \<open>stripIDNs\<close> deletes exactly the characters of \<open>IDN_RE_G\<close>, among them the tab
  and the space as well as the invisible and joining characters. For every URL that
  \<open>cleanUrl\<close> takes in wikilink mode and whose protocol is empty or valid, the result is
  protocol, host and path, where the host holds no tab and no space: it is the parsed host
  without the characters of \<open>IDN_RE_G\<close>, unless that is rewritten as an IPv6 literal.
\<close>

theorem C10_stripIDNs:
  "stripIDNs host = filter (\<lambda>c. \<not> isIDNChar c) host
   \<and> isIDNChar 0x09 \<and> isIDNChar 0x20
   \<and> list_all isIDNChar [0xAD, 0x200B, 0x200D, 0x200C, 0x2060, 0xFEFF, 0x034F,
                          0x1806, 0x180B, 0x180C, 0x180D, 0xFE00, 0xFE0F]
   \<and> (urlBits href = Some (proto, host, path) \<and> (proto = [] \<or> hasValidProtocol cf proto) \<longrightarrow>
        (\<exists>h. cleanUrl cf href (js ''wikilink'') = Inr (Str (proto @ h @ path))
             \<and> 0x09 \<notin> set h \<and> 0x20 \<notin> set h
             \<and> (ipv6Match (stripIDNs host) = None \<longrightarrow> h = filter (\<lambda>c. \<not> isIDNChar c) host)))"
proof -
  have f: "stripIDNs host = filter (\<lambda>c. \<not> isIDNChar c) host" by (rule stripIDNs_filter)
  have ws: "isIDNChar 0x09 \<and> isIDNChar 0x20" by (simp add: isIDNChar_def)
  have l: "list_all isIDNChar [0xAD, 0x200B, 0x200D, 0x200C, 0x2060, 0xFEFF, 0x034F,
                          0x1806, 0x180B, 0x180C, 0x180D, 0xFE00, 0xFE0F]"
    by (simp add: isIDNChar_def)
  have nows: "0x09 \<notin> set (stripIDNs host) \<and> 0x20 \<notin> set (stripIDNs host)"
    unfolding f using ws by simp
  have u: "urlBits href = Some (proto, host, path) \<and> (proto = [] \<or> hasValidProtocol cf proto) \<longrightarrow>
        (\<exists>h. cleanUrl cf href (js ''wikilink'') = Inr (Str (proto @ h @ path))
             \<and> 0x09 \<notin> set h \<and> 0x20 \<notin> set h
             \<and> (ipv6Match (stripIDNs host) = None \<longrightarrow> h = filter (\<lambda>c. \<not> isIDNChar c) host))"
  proof
    assume a: "urlBits href = Some (proto, host, path) \<and> (proto = [] \<or> hasValidProtocol cf proto)"
    show "\<exists>h. cleanUrl cf href (js ''wikilink'') = Inr (Str (proto @ h @ path))
             \<and> 0x09 \<notin> set h \<and> 0x20 \<notin> set h
             \<and> (ipv6Match (stripIDNs host) = None \<longrightarrow> h = filter (\<lambda>c. \<not> isIDNChar c) host)"
    proof (cases "ipv6Match (stripIDNs host)")
      case None
      with a have "cleanUrl cf href (js ''wikilink'') = Inr (Str (proto @ stripIDNs host @ path))"
        by (auto simp: cleanUrl_def)
      with nows f None show ?thesis by auto
    next
      case (Some ap)
      obtain addr port where ap: "ap = (addr, port)" by (cases ap)
      from Some ap have m: "ipv6Match (stripIDNs host) = Some (addr, port)" by simp
      from ipv6Match_set [OF m] nows
      have s: "0x09 \<notin> set addr \<and> 0x20 \<notin> set addr \<and> 0x09 \<notin> set port \<and> 0x20 \<notin> set port"
        by auto
      from a m have "cleanUrl cf href (js ''wikilink'') =
          Inr (Str (proto @ (js ''['' @ addr @ js '']'' @ port) @ path))"
        by (auto simp: cleanUrl_def)
      moreover have "0x09 \<notin> set (js ''['' @ addr @ js '']'' @ port)
          \<and> 0x20 \<notin> set (js ''['' @ addr @ js '']'' @ port)"
        using s by (simp add: js_simps)
      ultimately show ?thesis using m by auto
    qed
  qed
  from f ws l u show ?thesis by blast
qed

theorem C10_witness:
  "urlBits (js ''http://exa mple.com/a b'') = Some (js ''http://'', js ''exa mple.com'', js ''/a b'')
   \<and> cleanUrl httpOnly (js ''http://exa mple.com/a b'') (js ''wikilink'')
       = Inr (Str (js ''http://example.com/a b''))"
proof -
  have b: "urlBits (js ''http://exa mple.com/a b'') = Some (js ''http://'', js ''exa mple.com'', js ''/a b'')"
    by (simp add: url_defs js_simps class_defs)
  have v: "hasValidProtocol httpOnly (js ''http://'')" by (simp add: httpOnly_def)
  have n: "ipv6Match (stripIDNs (js ''exa mple.com'')) = None"
    by (simp add: url_defs js_simps class_defs)
  have e: "filter (\<lambda>c. \<not> isIDNChar c) (js ''exa mple.com'') = js ''example.com''"
    by (simp add: isIDNChar_def js_simps)
  from C10_stripIDNs [of "js ''exa mple.com''" "js ''http://exa mple.com/a b''" "js ''http://''" "js ''/a b''" httpOnly]
    b v n e
  have "cleanUrl httpOnly (js ''http://exa mple.com/a b'') (js ''wikilink'')
          = Inr (Str (js ''http://'' @ js ''example.com'' @ js ''/a b''))"
    by auto
  then show ?thesis using b by (simp add: js_simps)
qed


subsection \<open>Disallowed tags\<close>

lemma attrsSource_concat:
  "attrsSource buf kvs =
     buf @ concat (map (\<lambda>kv. js '' '' @ kv_k kv @ js ''='' @ [0x27] @ toStr (kv_v kv) @ [0x27]) kvs)"
  by (induction kvs arbitrary: buf) simp_all

lemma sanitizeToken_disallowed:
  assumes d: "disallowedTag P t"
  shows
    "(\<not> inTemplate \<and> da_tsr (dataAttribs t) = Some (a, b) \<longrightarrow>
        sanitizeToken P config (Some ev) awlCache cf (Tag t) inTemplate =
          Inr (Text (substring (page_src ev) a b), awlCache)
        \<and> sanitizeToken P config None awlCache cf (Tag t) inTemplate = Inl TypeError)
     \<and> (\<not> (\<not> inTemplate \<and> da_tsr (dataAttribs t) \<noteq> None) \<and> kind t \<noteq> EndTagTk \<longrightarrow>
        sanitizeToken P config thisConf awlCache cf (Tag t) inTemplate =
          Inr (Text (js ''<'' @ name t
                     @ concat (map (\<lambda>kv. js '' '' @ kv_k kv @ js ''='' @ [0x27]
                                          @ toStr (kv_v kv) @ [0x27]) (attribs t))
                     @ (if kind t = SelfclosingTagTk then js '' /'' else [])
                     @ js ''>''), awlCache))
     \<and> (\<not> (\<not> inTemplate \<and> da_tsr (dataAttribs t) \<noteq> None) \<and> kind t = EndTagTk \<longrightarrow>
        sanitizeToken P config thisConf awlCache cf (Tag t) inTemplate =
          Inr (Text (js ''</'' @ name t @ js ''>''), awlCache))"
  using d
  by (auto simp: disallowedTag_def sanitizeToken_def getWTSource_def attrsSource_concat)

lemma sanitizeToken_with_source:
  "sanitizeToken testPlatform globalConfig (Some \<lparr>page_src = js ''<script>alert(1)''\<rparr>) []
       httpOnly (Tag disallowedScript) False
     = Inr (Text (js ''<script>''), [])"
proof -
  have d: "disallowedTag testPlatform disallowedScript"
    by (simp add: disallowedTag_def disallowedScript_def isHTMLTag_def testPlatform_def
        toUpperCase_def isAscii_def asciiUpper_def js_simps class_defs)
  have t: "da_tsr (dataAttribs disallowedScript) = Some (0, 8)"
    by (simp add: disallowedScript_def)
  have s: "substring (js ''<script>alert(1)'') 0 8 = js ''<script>''"
    by (simp add: substring_def js_simps)
  from sanitizeToken_disallowed [OF d, of False 0 8 globalConfig "\<lparr>page_src = js ''<script>alert(1)''\<rparr>"] t s
  show ?thesis by simp
qed


text \<open>
  C4. The second and the third branch are as the claim says (\<open>sanitizeToken_disallowed\<close>).
  The first is not: \<open>sanitizeToken\<close> is a static method, called on the class, and
  \<open>this.conf\<close> is \<open>undefined\<close>; for a disallowed HTML tag with a source range and
  \<open>inTemplate\<close> false, \<open>getWTSource\<close> throws a TypeError instead of returning the source
  text.
\<close>

theorem C4_source_range_throws:
  "disallowedTag testPlatform disallowedScript
   \<and> sanitizeToken testPlatform globalConfig None [] httpOnly (Tag disallowedScript) False
       = Inl TypeError"
proof -
  have d: "disallowedTag testPlatform disallowedScript"
    by (simp add: disallowedTag_def disallowedScript_def isHTMLTag_def testPlatform_def
        toUpperCase_def isAscii_def asciiUpper_def js_simps class_defs)
  have "da_tsr (dataAttribs disallowedScript) = Some (0, 8)"
    by (simp add: disallowedScript_def)
  with sanitizeToken_disallowed [OF d, of False 0 8] d show ?thesis by simp
qed

theorem C4_witness:
  "sanitizeToken testPlatform globalConfig None [] httpOnly (Tag disallowedScript) False
     \<noteq> Inr (Text (js ''<script>''), [])"
  using C4_source_range_throws by simp


subsection \<open>The attributes of a sanitized tag\<close>

lemma set_obj_put: "set (obj_put ob k x) \<subseteq> insert (k, x) (set ob)"
  by (induction ob) (auto split: if_splits)

lemma set_obj_set: "set (obj_set ob k x) \<subseteq> insert (k, x) (set ob)"
  using set_obj_put [of ob k x] by (auto simp: obj_set_def)

lemma entriesAdmitted_obj_set:
  assumes "entriesAdmitted P config wlist attrs0 na"
    and "\<And>v0 v1 ok. e = Some (v0, v1, ok) \<Longrightarrow> v0 \<noteq> Null \<Longrightarrow>
           keyAdmitted config wlist k (recognizedAsParsoid P attrs0 k)"
  shows "entriesAdmitted P config wlist attrs0 (obj_set na k e)"
  unfolding entriesAdmitted_def
proof (intro allI impI)
  fix k' v0 v1 ok
  assume m: "(k', Some (v0, v1, ok)) \<in> set (obj_set na k e)" and n: "v0 \<noteq> Null"
  from m set_obj_set [of na k e] have "(k', Some (v0, v1, ok)) = (k, e) \<or> (k', Some (v0, v1, ok)) \<in> set na"
    by auto
  then show "keyAdmitted config wlist k' (recognizedAsParsoid P attrs0 k')"
  proof
    assume "(k', Some (v0, v1, ok)) = (k, e)"
    with assms(2) n show ?thesis by auto
  next
    assume "(k', Some (v0, v1, ok)) \<in> set na"
    with assms(1) n show ?thesis unfolding entriesAdmitted_def by blast
  qed
qed

lemma entriesAdmitted_None:
  "entriesAdmitted P config wlist attrs0 na \<Longrightarrow>
   entriesAdmitted P config wlist attrs0 (obj_set na k None)"
  by (rule entriesAdmitted_obj_set) simp_all

lemma attrGate_admitted:
  "attrGate config wlist k v psd = Inr g \<Longrightarrow> g \<noteq> Reject \<Longrightarrow> keyAdmitted config wlist k psd"
  by (auto simp: attrGate_def keyAdmitted_def split: if_splits sum.splits)

lemma storeAttr_admitted:
  assumes "entriesAdmitted P config wlist attrs0 na"
    and "keyAdmitted config wlist k (recognizedAsParsoid P attrs0 k)"
    and "storeAttr config h na k v origV origK = (r, n1)"
  shows "entriesAdmitted P config wlist attrs0 n1"
proof -
  have 1: "entriesAdmitted P config wlist attrs0 (obj_set na k (Some (Str v, Str origV, origK)))"
    using assms(1,2) by (intro entriesAdmitted_obj_set) auto
  from assms(3) have "n1 = na \<or> n1 = obj_set na k (Some (Str v, Str origV, origK))
      \<or> n1 = obj_set (obj_set (obj_set na k (Some (Str v, Str origV, origK))) (js ''itemtype'') None)
             (js ''itemid'') None"
    by (auto simp: storeAttr_def Let_def split: if_splits)
  with assms(1) 1 show ?thesis by (auto intro: entriesAdmitted_None)
qed

lemma keyAdmitted_mono: "keyAdmitted config wlist k p \<Longrightarrow> (p \<Longrightarrow> q) \<Longrightarrow> keyAdmitted config wlist k q"
  by (auto simp: keyAdmitted_def)

lemma sanitizeAttr_admitted:
  assumes inv: "entriesAdmitted P config wlist attrs0 na"
    and psd: "isParsoidAttr (toLowerCase P (kv_k a)) (toStr (kv_v a)) attrs \<Longrightarrow>
              recognizedAsParsoid P attrs0 (toLowerCase P (kv_k a))"
    and res: "sanitizeAttr P config cf wlist tok attrs a na = Inr (r, n1)"
  shows "entriesAdmitted P config wlist attrs0 n1"
proof -
  define k where "k = toLowerCase P (kv_k a)"
  define v where "v = toStr (kv_v a)"
  define p where "p = isParsoidAttr k v attrs"
  obtain g where g: "attrGate config wlist k v p = Inr g"
    using res unfolding sanitizeAttr_def Let_def k_def v_def p_def
    by (cases "attrGate config wlist (toLowerCase P (kv_k a)) (toStr (kv_v a))
          (isParsoidAttr (toLowerCase P (kv_k a)) (toStr (kv_v a)) attrs)") auto
  have rej: "\<And>x y. entriesAdmitted P config wlist attrs0 (obj_set na k (Some (Null, x, y)))"
    using inv by (intro entriesAdmitted_obj_set) auto
  show ?thesis
  proof (cases g)
    case Reject
    with g res rej show ?thesis
      unfolding sanitizeAttr_def Let_def k_def v_def p_def by auto
  next
    case AcceptAsIs
    have adm: "keyAdmitted config wlist k (recognizedAsParsoid P attrs0 k)"
      using attrGate_admitted [OF g] AcceptAsIs psd
      by (auto intro: keyAdmitted_mono simp: k_def v_def p_def)
    have "entriesAdmitted P config wlist attrs0 (obj_set na k (Some (Str v, x, y)))" for x y
      using inv adm by (intro entriesAdmitted_obj_set) auto
    with g res AcceptAsIs show ?thesis
      unfolding sanitizeAttr_def Let_def k_def v_def p_def by auto
  next
    case Proceed
    have adm: "keyAdmitted config wlist k (recognizedAsParsoid P attrs0 k)"
      using attrGate_admitted [OF g] Proceed psd
      by (auto intro: keyAdmitted_mono simp: k_def v_def p_def)
    have any: "entriesAdmitted P config wlist attrs0 (obj_set na k e)" for e
      using inv adm by (intro entriesAdmitted_obj_set) auto
    have st: "storeAttr config h na k x y z = (r', n') \<Longrightarrow> entriesAdmitted P config wlist attrs0 n'"
      for h x y z r' n'
      using storeAttr_admitted [OF inv adm] by blast
    have shape: "(\<exists>e. n1 = obj_set na k e) \<or> (\<exists>h x y z. storeAttr config h na k x y z = (r, n1))"
      using res g Proceed
      unfolding sanitizeAttr_def Let_def k_def [symmetric] v_def [symmetric] p_def [symmetric]
      by (simp split: sum.splits if_splits option.splits) blast+
    then show ?thesis using any st by blast
  qed
qed


lemma loop_admitted:
  "sanitizeAttrsLoop P config cf wlist tok (map normalizeValue pre) todo na = Inr n' \<Longrightarrow>
   entriesAdmitted P config wlist (pre @ todo) na \<Longrightarrow>
   entriesAdmitted P config wlist (pre @ todo) n'"
proof (induction todo arbitrary: pre na)
  case Nil
  then show ?case by simp
next
  case (Cons a rest)
  let ?a = "normalizeValue a"
  let ?attrs = "map normalizeValue pre @ ?a # rest"
  from Cons.prems(1) obtain r n1 where
    step: "sanitizeAttr P config cf wlist tok ?attrs ?a na = Inr (r, n1)"
    by (cases "sanitizeAttr P config cf wlist tok ?attrs ?a na") auto
  have k: "kv_k ?a = kv_k a" by (simp add: normalizeValue_def)
  have psd: "isParsoidAttr (toLowerCase P (kv_k ?a)) (toStr (kv_v ?a)) ?attrs \<Longrightarrow>
        recognizedAsParsoid P (pre @ a # rest) (toLowerCase P (kv_k ?a))"
    unfolding recognizedAsParsoid_def k by blast
  have n1: "entriesAdmitted P config wlist (pre @ a # rest) n1"
    by (rule sanitizeAttr_admitted [OF Cons.prems(2) psd step])
  show ?case
  proof (cases r)
    case True
    with Cons.prems(1) step n1 show ?thesis by simp
  next
    case False
    with Cons.prems(1) step have
      "sanitizeAttrsLoop P config cf wlist tok (map normalizeValue (pre @ [a])) rest n1 = Inr n'"
      by simp
    from Cons.IH [OF this] n1 show ?thesis by simp
  qed
qed

lemma entriesAdmitted_empty: "entriesAdmitted P config wlist attrs0 []"
  by (simp add: entriesAdmitted_def)

lemma sanitizeTagAttrs_admitted:
  assumes "sanitizeTagAttrs P config cf awlCache None (Some t) attrs = Inr (na, c1)"
  shows "entriesAdmitted P config (fst (getAttrWhiteList config awlCache (name t))) attrs na"
proof -
  from assms have
    "sanitizeAttrsLoop P config cf (fst (getAttrWhiteList config awlCache (name t))) (Some t)
        (map normalizeValue []) attrs [] = Inr na"
    by (auto simp: sanitizeTagAttrs_def split: sum.splits)
  from loop_admitted [OF this] entriesAdmitted_empty show ?thesis by simp
qed

lemma set_objectEntries: "set (objectEntries ob) = set ob"
  by (auto simp: objectEntries_def)

lemma attribs_setShadowInfo: "attribs (setShadowInfo t nm v ov) = attribs t"
  by (simp add: setShadowInfo_def Let_def)

lemma applyEntries_attribs:
  "applyEntries t es = Inr t' \<Longrightarrow> kv \<in> set (attribs t') \<Longrightarrow>
   kv \<in> set (attribs t) \<or>
   (\<exists>v0 v1 ok. (kv_k kv, Some (v0, v1, ok)) \<in> set es \<and> v0 \<noteq> Null \<and> kv_v kv = v0)"
proof (induction es arbitrary: t)
  case Nil
  then show ?case by simp
next
  case (Cons e es)
  obtain j vs where e: "e = (j, vs)" by (cases e)
  from Cons.prems(1) e obtain t1 where
    t1: "applyEntry t j vs = Inr t1" and rest: "applyEntries t1 es = Inr t'"
    by (cases "applyEntry t j vs") auto
  from Cons.IH [OF rest Cons.prems(2)] consider
    (old) "kv \<in> set (attribs t1)"
    | (new) "\<exists>v0 v1 ok. (kv_k kv, Some (v0, v1, ok)) \<in> set es \<and> v0 \<noteq> Null \<and> kv_v kv = v0"
    by blast
  then show ?case
  proof cases
    case old
    from t1 obtain v0 v1 ok where vs: "vs = Some (v0, v1, ok)"
      by (cases vs) (auto simp: applyEntry_def)
    show ?thesis
    proof (cases "v0 = Null")
      case True
      with t1 vs have "attribs t1 = attribs t"
        by (auto simp: applyEntry_def attribs_setShadowInfo)
      with old show ?thesis by simp
    next
      case False
      with t1 vs have "attribs t1 = attribs t @ [newKV j v0]"
        by (auto simp: applyEntry_def addNormalizedAttribute_def attribs_setShadowInfo
            addAttribute_def)
      with old have "kv \<in> set (attribs t) \<or> kv = newKV j v0" by auto
      then show ?thesis
      proof
        assume "kv \<in> set (attribs t)"
        then show ?thesis by simp
      next
        assume "kv = newKV j v0"
        then have "kv_k kv = j" "kv_v kv = v0" by (simp_all add: newKV_def)
        with e vs False show ?thesis by auto
      qed
    qed
  next
    case new
    then show ?thesis by auto
  qed
qed

lemma sanitizeToken_cases:
  assumes "sanitizeToken P config thisConf awlCache cf (Tag t) inTemplate = Inr (Token (Tag t'), c1)"
  shows "(t' = t \<and> attribs t = []) \<or> t' = t\<lparr>attribs := []\<rparr> \<or>
     (\<exists>na. sanitizeTagAttrs P config cf awlCache None (Some t) (attribs t) = Inr (na, c1) \<and>
           applyEntries (t\<lparr>attribs := []\<rparr>) (objectEntries na) = Inr t')"
  using assms by (auto simp: sanitizeToken_def split: if_splits sum.splits)

lemma sanitizeToken_attribute_keys:
  assumes "sanitizeToken P config thisConf awlCache cf (Tag t) inTemplate = Inr (Token (Tag t'), c1)"
    and "kv \<in> set (attribs t')"
  shows "keyAdmitted config (fst (getAttrWhiteList config awlCache (name t))) (kv_k kv)
           (recognizedAsParsoid P (attribs t) (kv_k kv))"
proof -
  from sanitizeToken_cases [OF assms(1)] assms(2) obtain na where
    na: "sanitizeTagAttrs P config cf awlCache None (Some t) (attribs t) = Inr (na, c1)"
    and ap: "applyEntries (t\<lparr>attribs := []\<rparr>) (objectEntries na) = Inr t'"
    by auto
  from applyEntries_attribs [OF ap assms(2)] obtain v0 v1 ok where
    "(kv_k kv, Some (v0, v1, ok)) \<in> set na" "v0 \<noteq> Null"
    by (auto simp: set_objectEntries)
  with sanitizeTagAttrs_admitted [OF na] show ?thesis
    unfolding entriesAdmitted_def by blast
qed

lemmas attr_defs =
  sanitizeAttr_def attrGate_def storeAttr_def isParsoidAttr_def hasParsoidMarker_def
  isAboutId_def XMLNS_ATTRIBUTE_RE_def dataAttrRE_def EVIL_URI_RE_def evilKeywordAt_def
  wordEnd_def microData_def normalizeValue_def newKV_def toStr_def lookup_def lookupKV_def
  trim_def whiteListHas_def toLowerCase_def isAscii_def Let_def

lemmas regex_defs =
  getAttribsRegex_def inRanges_def attrNameStartRanges_def attrNameCharRanges_def

lemma getAttribsRegex_foo: "getAttribsRegex (js ''foo'')"
  by (simp add: regex_defs js_simps)

lemma getAttribsRegex_bar: "getAttribsRegex (js ''bar'')"
  by (simp add: regex_defs js_simps)

lemma fooBar_newAttrs:
  "sanitizeAttrsLoop P globalConfig cf (WhiteSet [js ''foo'']) (Some t) []
     [newKV (js ''foo'') (Str (js ''bar'')), newKV (js ''bar'') (Str (js ''foo''))] [] =
   Inr fooBarEntries"
  using getAttribsRegex_foo getAttribsRegex_bar
  by (simp add: attr_defs globalConfig_def js_simps class_defs startsWith_def startsWithCI_def
      obj_set_def fooBarEntries_def)

lemma fooBar_tagAttrs:
  assumes "map_of awlCache tg = Some [js ''foo'']"
  shows "sanitizeTagAttrs P globalConfig cf awlCache None (Some (fooBarToken kd tg))
      (attribs (fooBarToken kd tg)) = Inr (fooBarEntries, awlCache)"
proof -
  have wl: "getAttrWhiteList globalConfig awlCache tg = (WhiteSet [js ''foo''], awlCache)"
    using assms by (simp add: getAttrWhiteList_def)
  have a: "attribs (fooBarToken kd tg) =
      [newKV (js ''foo'') (Str (js ''bar'')), newKV (js ''bar'') (Str (js ''foo''))]"
    and n: "name (fooBarToken kd tg) = tg"
    by (simp_all add: fooBarToken_def)
  show ?thesis
    unfolding sanitizeTagAttrs_def a
    by (simp add: n wl fooBar_newAttrs del: sanitizeAttrsLoop.simps)
qed

lemma fooBar_sanitized:
  assumes "map_of awlCache tg = Some [js ''foo'']" and "kd = TagTk \<or> kd = SelfclosingTagTk"
  shows "sanitizeToken P globalConfig thisConf awlCache cf (Tag (fooBarToken kd tg)) inTemplate =
     Inr (Token (Tag (fooBarSanitized kd tg)), awlCache)"
proof -
  have nohtml: "\<not> isHTMLTag (fooBarToken kd tg)"
    by (simp add: isHTMLTag_def fooBarToken_def emptyDataAttribs_def)
  have idx: "\<not> isArrayIndex (js ''foo'')" "\<not> isArrayIndex (js ''bar'')"
    by (simp_all add: isArrayIndex_def js_simps class_defs)
  have oe: "objectEntries fooBarEntries = fooBarEntries"
    using idx by (simp add: objectEntries_def fooBarEntries_def)
  have np: "js ''bar'' \<noteq> js ''__proto__''" by (simp add: js_simps)
  have ap: "applyEntries (fooBarToken kd tg\<lparr>attribs := []\<rparr>) fooBarEntries =
      Inr (fooBarSanitized kd tg)"
    using np
    by (simp add: applyEntry_def addNormalizedAttribute_def addAttribute_def setShadowInfo_def
        fooBarToken_def fooBarSanitized_def fooBarEntries_def emptyDataAttribs_def obj_set_def
        Let_def)
  have ne: "attribs (fooBarToken kd tg) \<noteq> []" by (simp add: fooBarToken_def)
  have kd: "kind (fooBarToken kd tg) = kd" by (simp add: fooBarToken_def)
  show ?thesis
    unfolding sanitizeToken_def using nohtml ne kd assms(2)
    by (simp add: fooBar_tagAttrs [OF assms(1)] oe ap del: applyEntries.simps)
qed

lemma fooBar_getAttribute:
  "getAttribute (fooBarSanitized kd tg) (js ''foo'') = Str (js ''bar'')
   \<and> getAttribute (fooBarSanitized kd tg) (js ''bar'') = Null"
  by (simp add: getAttribute_def lookup_def lookupKV_def newKV_def trim_def js_simps class_defs
      fooBarSanitized_def)

text \<open>
  C1. For every tag token that \<open>sanitizeToken\<close> returns as a tag (an opening or a
  self-closing tag keeps attributes; any other has none left), every attribute key of the
  sanitized token is admitted: it passes \<open>getAttribsRegex\<close> and is a member of the
  whitelist resolved for the tag, unless it is an \<open>xmlns:*\<close> declaration with RDFa
  enabled, a \<open>data-*\<close> key other than \<open>data-ooui\<close> in HTML5 mode, or the key of an
  attribute recognized as internally generated. For a tag whose cached whitelist is exactly
  \<open>{foo}\<close> and the attributes \<open>foo=bar\<close> and \<open>bar=foo\<close>, the sanitized token has
  \<open>getAttribute("foo") == "bar"\<close> and \<open>getAttribute("bar") == null\<close>.
\<close>

theorem C1_sanitized_attribute_keys:
  "(sanitizeToken P config thisConf awlCache cf (Tag t) inTemplate = Inr (Token (Tag t'), c1) \<longrightarrow>
      (\<forall>kv \<in> set (attribs t').
         keyAdmitted config (fst (getAttrWhiteList config awlCache (name t))) (kv_k kv)
           (recognizedAsParsoid P (attribs t) (kv_k kv))))
   \<and> (map_of awlCache tg = Some [js ''foo''] \<and> (kd = TagTk \<or> kd = SelfclosingTagTk) \<longrightarrow>
        (\<exists>t1. sanitizeToken P globalConfig thisConf awlCache cf (Tag (fooBarToken kd tg)) inTemplate
                = Inr (Token (Tag t1), awlCache)
              \<and> getAttribute t1 (js ''foo'') = Str (js ''bar'')
              \<and> getAttribute t1 (js ''bar'') = Null))"
proof -
  have a: "sanitizeToken P config thisConf awlCache cf (Tag t) inTemplate = Inr (Token (Tag t'), c1) \<longrightarrow>
      (\<forall>kv \<in> set (attribs t').
         keyAdmitted config (fst (getAttrWhiteList config awlCache (name t))) (kv_k kv)
           (recognizedAsParsoid P (attribs t) (kv_k kv)))"
    using sanitizeToken_attribute_keys by blast
  have b: "map_of awlCache tg = Some [js ''foo''] \<and> (kd = TagTk \<or> kd = SelfclosingTagTk) \<longrightarrow>
        (\<exists>t1. sanitizeToken P globalConfig thisConf awlCache cf (Tag (fooBarToken kd tg)) inTemplate
                = Inr (Token (Tag t1), awlCache)
              \<and> getAttribute t1 (js ''foo'') = Str (js ''bar'')
              \<and> getAttribute t1 (js ''bar'') = Null)"
    using fooBar_sanitized [of awlCache tg kd P thisConf cf inTemplate] fooBar_getAttribute
    by blast
  from a b show ?thesis by blast
qed

theorem C1_witness:
  "sanitizeToken testPlatform globalConfig None [(js ''testelement'', [js ''foo''])] httpOnly
       (Tag (fooBarToken TagTk (js ''testelement''))) False =
     Inr (Token (Tag (fooBarSanitized TagTk (js ''testelement''))),
          [(js ''testelement'', [js ''foo''])])
   \<and> keyAdmitted globalConfig (WhiteSet [js ''foo'']) (js ''foo'')
        (recognizedAsParsoid testPlatform (attribs (fooBarToken TagTk (js ''testelement'')))
           (js ''foo''))
   \<and> (\<exists>t1. sanitizeToken testPlatform globalConfig None [(js ''testelement'', [js ''foo''])]
               httpOnly (Tag (fooBarToken SelfclosingTagTk (js ''testelement''))) False
               = Inr (Token (Tag t1), [(js ''testelement'', [js ''foo''])])
             \<and> getAttribute t1 (js ''foo'') = Str (js ''bar'')
             \<and> getAttribute t1 (js ''bar'') = Null)"
proof -
  let ?cache = "[(js ''testelement'', [js ''foo''])]"
  let ?t = "fooBarToken TagTk (js ''testelement'')"
  let ?t' = "fooBarSanitized TagTk (js ''testelement'')"
  have m: "map_of ?cache (js ''testelement'') = Some [js ''foo'']" by simp
  have r: "sanitizeToken testPlatform globalConfig None ?cache httpOnly (Tag ?t) False =
      Inr (Token (Tag ?t'), ?cache)"
    using fooBar_sanitized [OF m, of TagTk] by simp
  have w: "fst (getAttrWhiteList globalConfig ?cache (name ?t)) = WhiteSet [js ''foo'']"
    by (simp add: getAttrWhiteList_def fooBarToken_def)
  have k: "newKV (js ''foo'') (Str (js ''bar'')) \<in> set (attribs ?t')"
    by (simp add: fooBarSanitized_def)
  have n: "kv_k (newKV (js ''foo'') (Str (js ''bar''))) = js ''foo''" by (simp add: newKV_def)
  note inst = C1_sanitized_attribute_keys [where P = testPlatform and config = globalConfig
      and thisConf = None and awlCache = "?cache" and cf = httpOnly and t = "?t"
      and inTemplate = False and t' = "?t'" and ?c1.0 = "?cache" and tg = "js ''testelement''"
      and kd = SelfclosingTagTk]
  from inst r k
  have "keyAdmitted globalConfig (fst (getAttrWhiteList globalConfig ?cache (name ?t)))
          (kv_k (newKV (js ''foo'') (Str (js ''bar''))))
          (recognizedAsParsoid testPlatform (attribs ?t)
             (kv_k (newKV (js ''foo'') (Str (js ''bar'')))))"
    by blast
  then have a: "keyAdmitted globalConfig (WhiteSet [js ''foo'']) (js ''foo'')
        (recognizedAsParsoid testPlatform (attribs ?t) (js ''foo''))"
    unfolding w n .
  from inst m have b: "\<exists>t1. sanitizeToken testPlatform globalConfig None ?cache
               httpOnly (Tag (fooBarToken SelfclosingTagTk (js ''testelement''))) False
               = Inr (Token (Tag t1), ?cache)
             \<and> getAttribute t1 (js ''foo'') = Str (js ''bar'')
             \<and> getAttribute t1 (js ''bar'') = Null"
    by blast
  from r a b show ?thesis by blast
qed

subsection \<open>Shadow information\<close>



























subsection \<open>Tags without an entry in the whitelist table\<close>



lemma getAttrWhiteList_constructor:
  "getAttrWhiteList config [] (js ''constructor'') = (InheritedValue, [])"
  by (simp add: getAttrWhiteList_def objectPrototypeNames_def js_simps)


text \<open>
  A tag named like a property of \<open>Object.prototype\<close> finds the inherited value in the
  cache, and \<open>wlist.has\<close> throws on the first attribute that reaches the whitelist test.
\<close>

lemma constructor_tag_throws:
  "sanitizeToken P globalConfig thisConf [] cf (Tag (fooBarToken TagTk (js ''constructor''))) inTemplate
     = Inl TypeError"
proof -
  have nohtml: "\<not> isHTMLTag (fooBarToken TagTk (js ''constructor''))"
    by (simp add: isHTMLTag_def fooBarToken_def emptyDataAttribs_def)
  have a: "attribs (fooBarToken TagTk (js ''constructor'')) =
        [newKV (js ''foo'') (Str (js ''bar'')), newKV (js ''bar'') (Str (js ''foo''))]"
    and n: "name (fooBarToken TagTk (js ''constructor'')) = js ''constructor''"
    and k: "kind (fooBarToken TagTk (js ''constructor'')) = TagTk"
    by (simp_all add: fooBarToken_def)
  have l: "sanitizeAttrsLoop P globalConfig cf InheritedValue (Some t) []
     [newKV (js ''foo'') (Str (js ''bar'')), newKV (js ''bar'') (Str (js ''foo''))] [] = Inl TypeError"
    for t
    using getAttribsRegex_foo
    by (simp add: attr_defs globalConfig_def js_simps class_defs startsWith_def startsWithCI_def)
  have "sanitizeTagAttrs P globalConfig cf [] None (Some (fooBarToken TagTk (js ''constructor'')))
      (attribs (fooBarToken TagTk (js ''constructor''))) = Inl TypeError"
    unfolding sanitizeTagAttrs_def a
    by (simp add: n getAttrWhiteList_constructor l del: sanitizeAttrsLoop.simps)
  then show ?thesis
    unfolding sanitizeToken_def using nohtml k by (simp add: a)
qed




end
